theory Spec2Isabelle
  imports Main "HOL-Library.Word"
begin

unbundle bit_operations_syntax

section \<open>Go library functions used by the program\<close>

text \<open>
  Go strings are byte sequences; they are modelled as \<^typ>\<open>string\<close>. The functions of
  this section belong to Go's standard library (packages \<^verbatim>\<open>strings\<close>,
  \<^verbatim>\<open>strconv\<close> and \<^verbatim>\<open>net\<close>); they are written out after the library's
  documented behaviour, so that the program's own functions can be evaluated.
\<close>

subsection \<open>Package strings\<close>

definition newline :: string where
  "newline = [CHR 0x0A]"

text \<open>\<^verbatim>\<open>strings.TrimRight(s, cutset)\<close>: all trailing bytes of the cutset removed.\<close>

definition TrimRight :: "string \<Rightarrow> string \<Rightarrow> string" where
  "TrimRight s cutset = rev (dropWhile (\<lambda>c. c \<in> set cutset) (rev s))"

text \<open>\<^verbatim>\<open>strings.Trim(s, cutset)\<close>: leading and trailing bytes of the cutset removed.\<close>

definition Trim :: "string \<Rightarrow> string \<Rightarrow> string" where
  "Trim s cutset = TrimRight (dropWhile (\<lambda>c. c \<in> set cutset) s) cutset"

text \<open>
  \<^verbatim>\<open>strings.Count(s, substr)\<close> for a separator of one byte, the only way the
  program calls it: the library counts the bytes of \<open>s\<close> equal to that byte.
\<close>

fun CountString :: "string \<Rightarrow> char \<Rightarrow> nat" where
  "CountString [] c = 0"
| "CountString (x # s) c = (if x = c then 1 + CountString s c else CountString s c)"

subsection \<open>Package strconv\<close>

definition digit_char :: "nat \<Rightarrow> char" where
  "digit_char n = ''0123456789abcdef'' ! n"

text \<open>Decimal and lower-case hexadecimal text of a natural number, without leading zeros.\<close>

fun uitoa :: "nat \<Rightarrow> string" where
  "uitoa n = (if n < 10 then [digit_char n] else uitoa (n div 10) @ [digit_char (n mod 10)])"

fun appendHex :: "nat \<Rightarrow> string" where
  "appendHex n = (if n < 16 then [digit_char n] else appendHex (n div 16) @ [digit_char (n mod 16)])"

declare uitoa.simps [simp del] appendHex.simps [simp del]

text \<open>\<^verbatim>\<open>strconv.FormatInt(i, 10)\<close>.\<close>

definition FormatInt :: "int \<Rightarrow> string" where
  "FormatInt i = (if i < 0 then CHR ''-'' # uitoa (nat (- i)) else uitoa (nat i))"

definition is_digit :: "char \<Rightarrow> bool" where
  "is_digit c = (c \<in> set ''0123456789'')"

definition digit_val :: "char \<Rightarrow> nat" where
  "digit_val c = of_char c - 48"

definition dec_value :: "string \<Rightarrow> int" where
  "dec_value ds = foldl (\<lambda>n c. 10 * n + int (digit_val c)) 0 ds"

text \<open>
  \<^verbatim>\<open>strconv.ParseInt(s, 10, 64)\<close>, the value alone (the program drops the error):
  0 on a syntax error, the nearest bound of int64 when the number is out of range.
\<close>

definition ParseInt :: "string \<Rightarrow> int" where
  "ParseInt s =
     (if s = [] then 0
      else
        let neg = (hd s = CHR ''-'');
            s0 = (if hd s = CHR ''+'' \<or> hd s = CHR ''-'' then tl s else s)
        in if s0 = [] \<or> \<not> list_all is_digit s0 then 0
           else
             let un = min (dec_value s0) (2 ^ 64 - 1)
             in if \<not> neg \<and> un \<ge> 2 ^ 63 then 2 ^ 63 - 1
                else if neg \<and> un > 2 ^ 63 then - (2 ^ 63)
                else if neg then - un else un)"

subsection \<open>Package net: IP addresses\<close>

text \<open>
  \<^verbatim>\<open>net.IP\<close> is a byte slice: four bytes, or sixteen (an IPv4 address is then held in
  its IPv4-mapped form); \<^verbatim>\<open>nil\<close> is the empty list.
\<close>

type_synonym IP = "8 word list"

definition IPv4len :: nat where
  "IPv4len = 4"

definition IPv6len :: nat where
  "IPv6len = 16"

definition v4InV6Prefix :: IP where
  "v4InV6Prefix = [0, 0, 0, 0, 0, 0, 0, 0, 0, 0, 0xff, 0xff]"

definition IPv4 :: "8 word \<Rightarrow> 8 word \<Rightarrow> 8 word \<Rightarrow> 8 word \<Rightarrow> IP" where
  "IPv4 a b c d = v4InV6Prefix @ [a, b, c, d]"

definition IPv4bcast :: IP where
  "IPv4bcast = IPv4 255 255 255 255"

definition IPv4zero :: IP where
  "IPv4zero = IPv4 0 0 0 0"

definition IPv6unspecified :: IP where
  "IPv6unspecified = replicate 16 0"

definition IPv6loopback :: IP where
  "IPv6loopback = replicate 15 0 @ [1]"

definition isZeros :: "IP \<Rightarrow> bool" where
  "isZeros p = list_all (\<lambda>b. b = 0) p"

definition To4 :: "IP \<Rightarrow> IP" where
  "To4 ip =
     (if length ip = IPv4len then ip
      else if length ip = IPv6len \<and> isZeros (take 10 ip) \<and> ip ! 10 = 0xff \<and> ip ! 11 = 0xff
      then drop 12 ip
      else [])"

definition IP_Equal :: "IP \<Rightarrow> IP \<Rightarrow> bool" where
  "IP_Equal ip x =
     (if length ip = length x then ip = x
      else if length ip = IPv4len \<and> length x = IPv6len
      then take 12 x = v4InV6Prefix \<and> ip = drop 12 x
      else if length ip = IPv6len \<and> length x = IPv4len
      then take 12 ip = v4InV6Prefix \<and> drop 12 ip = x
      else False)"

definition IsUnspecified :: "IP \<Rightarrow> bool" where
  "IsUnspecified ip = (IP_Equal ip IPv4zero \<or> IP_Equal ip IPv6unspecified)"

definition IsLoopback :: "IP \<Rightarrow> bool" where
  "IsLoopback ip =
     (if To4 ip \<noteq> [] then To4 ip ! 0 = 127 else IP_Equal ip IPv6loopback)"

definition IsMulticast :: "IP \<Rightarrow> bool" where
  "IsMulticast ip =
     (if To4 ip \<noteq> [] then (To4 ip ! 0) AND 0xf0 = 0xe0
      else length ip = IPv6len \<and> ip ! 0 = 0xff)"

definition IsInterfaceLocalMulticast :: "IP \<Rightarrow> bool" where
  "IsInterfaceLocalMulticast ip =
     (length ip = IPv6len \<and> ip ! 0 = 0xff \<and> (ip ! 1) AND 0x0f = 0x01)"

definition IsLinkLocalMulticast :: "IP \<Rightarrow> bool" where
  "IsLinkLocalMulticast ip =
     (if To4 ip \<noteq> [] then To4 ip ! 0 = 224 \<and> To4 ip ! 1 = 0 \<and> To4 ip ! 2 = 0
      else length ip = IPv6len \<and> ip ! 0 = 0xff \<and> (ip ! 1) AND 0x0f = 0x02)"

definition IsLinkLocalUnicast :: "IP \<Rightarrow> bool" where
  "IsLinkLocalUnicast ip =
     (if To4 ip \<noteq> [] then To4 ip ! 0 = 169 \<and> To4 ip ! 1 = 254
      else length ip = IPv6len \<and> ip ! 0 = 0xfe \<and> (ip ! 1) AND 0xc0 = 0x80)"

definition IsGlobalUnicast :: "IP \<Rightarrow> bool" where
  "IsGlobalUnicast ip =
     ((length ip = IPv4len \<or> length ip = IPv6len) \<and>
      \<not> IP_Equal ip IPv4bcast \<and>
      \<not> IsUnspecified ip \<and>
      \<not> IsLoopback ip \<and>
      \<not> IsMulticast ip \<and>
      \<not> IsLinkLocalUnicast ip)"

text \<open>
  \<^verbatim>\<open>IP.String()\<close>: dotted decimal for an IPv4 address (in either form), otherwise the
  eight 16-bit groups in hexadecimal, the leftmost longest run of two or more zero
  groups written \<^verbatim>\<open>::\<close>.
\<close>

fun join :: "string \<Rightarrow> string list \<Rightarrow> string" where
  "join sep [] = []"
| "join sep [x] = x"
| "join sep (x # y # xs) = x @ sep @ join sep (y # xs)"

definition dotted :: "IP \<Rightarrow> string" where
  "dotted p4 = join ''.'' (map (\<lambda>b. uitoa (unat b)) p4)"

definition hexString :: "IP \<Rightarrow> string" where
  "hexString b = concat (map (\<lambda>x. [digit_char (unat x div 16), digit_char (unat x mod 16)]) b)"

definition groups :: "IP \<Rightarrow> nat list" where
  "groups p = map (\<lambda>k. unat (p ! (2 * k)) * 256 + unat (p ! (2 * k + 1))) [0..<8]"

definition zero_run :: "nat list \<Rightarrow> nat" where
  "zero_run gs = length (takeWhile (\<lambda>g. g = 0) gs)"

fun longest_zero_run :: "nat list \<Rightarrow> nat \<Rightarrow> nat \<times> nat \<Rightarrow> nat \<times> nat" where
  "longest_zero_run [] i best = best"
| "longest_zero_run (g # gs) i best =
     longest_zero_run gs (i + 1)
       (if zero_run (g # gs) > snd best then (i, zero_run (g # gs)) else best)"

definition IPv6_text :: "nat list \<Rightarrow> string" where
  "IPv6_text gs =
     (let best = longest_zero_run gs 0 (0, 0)
      in if snd best < 2 then join '':'' (map appendHex gs)
         else join '':'' (map appendHex (take (fst best) gs)) @ ''::'' @
              join '':'' (map appendHex (drop (fst best + snd best) gs)))"

definition IP_String :: "IP \<Rightarrow> string" where
  "IP_String ip =
     (if length ip = 0 then ''<nil>''
      else if length ip \<noteq> IPv4len \<and> length ip \<noteq> IPv6len then ''?'' @ hexString ip
      else if length (To4 ip) = IPv4len then dotted (To4 ip)
      else IPv6_text (groups ip))"

text \<open>
  \<^verbatim>\<open>net.Addr\<close>: the interface addresses the operating system reports are
  \<^verbatim>\<open>*net.IPNet\<close> (address and mask) or \<^verbatim>\<open>*net.IPAddr\<close> (address and zone) values;
  any other implementation of the interface is \<open>OtherAddr\<close>.
\<close>

datatype Addr = IPNet IP IP | IPAddr IP string | OtherAddr

subsection \<open>Function isIPv4 (utils.go)\<close>

definition isIPv4 :: "string \<Rightarrow> bool" where
  "isIPv4 ip = (CountString ip (CHR '':'') < 2)"

section \<open>The program's data (settings.go)\<close>

record Domain =
  DomainName :: string
  SubDomains :: "string list"

record Notify =
  Enabled :: bool
  SMTPServer :: string
  SMTPUsername :: string
  SMTPPassword :: string
  SMTPPort :: int
  SendTo :: string

record Settings =
  Provider :: string
  Email :: string
  Password :: string
  LoginToken :: string
  Domains :: "Domain list"
  IPUrl :: string
  Interval :: int
  UserAgent :: string
  LogPath :: string
  Socks5Proxy :: string
  Notify :: Notify
  IPInterface :: string

section \<open>The outside world\<close>

text \<open>
  A Go \<^verbatim>\<open>error\<close> value is its message. What the program calls outside itself (the
  operating system's interface table, HTTP, SMTP, the JSON decoders) is a record \<open>X\<close> of
  functions over a world state \<open>'w\<close>: each call reads the world and returns its answer
  with the next world, so two calls with the same arguments may answer differently.
  The program's state is the world together with the trace of what it has done so far:
  every outside call and every log line appends one event. A \<open>Log\<close> event carries the
  literal text of the message; the values formatted into it are left out. \<open>EvSleep\<close>
  carries the seconds slept. \<open>buildTemplate\<close> renders the mail from a template constant
  that the sources do not define, so it is a function of \<open>X\<close> as well.

  \<open>http_NewRequest\<close> is the error, if any, with which \<^verbatim>\<open>http.NewRequest\<close> refuses to build
  a POST request of the DNSPod handler. The address of such a request is the API address
  of the handler followed by one of the three paths \<^verbatim>\<open>/Domain.List\<close>, \<^verbatim>\<open>/Record.List\<close> and
  \<^verbatim>\<open>/Record.Modify\<close>, and the request is refused when \<^verbatim>\<open>url.Parse\<close> refuses the address.
  Each path is a slash followed by letters and one dot: it holds no control character,
  no percent sign, no question mark and no number sign, and its slash ends whatever host,
  port or percent escape the API address has left open. So \<^verbatim>\<open>url.Parse\<close> accepts the
  address with one of the paths exactly when it accepts it with another, and the field is
  a function of the API address alone.
\<close>

datatype error = Error string

datatype Client = Direct | ViaSocks5 string

record Interface =
  Index :: int
  Name :: string

record Message =
  From :: string
  To :: string
  Subject :: string
  Body :: string

datatype json =
    JNull
  | JBool bool
  | JNumber string
  | JString string
  | JArray "json list"
  | JObject "(string \<times> json) list"

datatype event =
    Log string
  | EvInterfaceByName string
  | EvAddrs string
  | EvGet string
  | EvPost string "(string \<times> string) list"
  | EvRequest string string string
  | EvDialAndSend Message
  | EvSleep int
  | EvPanicChan string

record 'w sys =
  world :: 'w
  trace :: "event list"

record 'w extern =
  net_InterfaceByName :: "'w \<Rightarrow> string \<Rightarrow> (error + Interface) \<times> 'w"
  net_Addrs :: "'w \<Rightarrow> Interface \<Rightarrow> (error + Addr list) \<times> 'w"
  proxy_SOCKS5 :: "string \<Rightarrow> error option"
  http_Get :: "'w \<Rightarrow> Client \<Rightarrow> string \<Rightarrow> (error + string) \<times> 'w"
  http_NewRequest :: "string \<Rightarrow> error option"
  http_Post :: "'w \<Rightarrow> Client \<Rightarrow> string \<Rightarrow> (string \<times> string) list \<Rightarrow> (error + string) \<times> 'w"
  simplejson_NewJson :: "string \<Rightarrow> json option"
  buildTemplate :: "string \<Rightarrow> string \<Rightarrow> string"
  gomail_DialAndSend :: "'w \<Rightarrow> Notify \<Rightarrow> Message \<Rightarrow> error option \<times> 'w"

definition emit :: "event \<Rightarrow> 'w sys \<Rightarrow> 'w sys" where
  "emit e s = s\<lparr>trace := trace s @ [e]\<rparr>"

definition log_Println :: "string \<Rightarrow> 'w sys \<Rightarrow> 'w sys" where
  "log_Println m s = emit (Log m) s"

definition call_InterfaceByName :: "'w extern \<Rightarrow> string \<Rightarrow> 'w sys \<Rightarrow> (error + Interface) \<times> 'w sys" where
  "call_InterfaceByName X name s =
     (case net_InterfaceByName X (world s) name of
        (r, w) \<Rightarrow> (r, emit (EvInterfaceByName name) (s\<lparr>world := w\<rparr>)))"

definition call_Addrs :: "'w extern \<Rightarrow> Interface \<Rightarrow> 'w sys \<Rightarrow> (error + Addr list) \<times> 'w sys" where
  "call_Addrs X ifaces s =
     (case net_Addrs X (world s) ifaces of
        (r, w) \<Rightarrow> (r, emit (EvAddrs (Name ifaces)) (s\<lparr>world := w\<rparr>)))"

definition call_Get :: "'w extern \<Rightarrow> Client \<Rightarrow> string \<Rightarrow> 'w sys \<Rightarrow> (error + string) \<times> 'w sys" where
  "call_Get X client url s =
     (case http_Get X (world s) client url of
        (r, w) \<Rightarrow> (r, emit (EvGet url) (s\<lparr>world := w\<rparr>)))"

definition call_Post ::
  "'w extern \<Rightarrow> Client \<Rightarrow> string \<Rightarrow> (string \<times> string) list \<Rightarrow> 'w sys \<Rightarrow> (error + string) \<times> 'w sys" where
  "call_Post X client url vals s =
     (case http_Post X (world s) client url vals of
        (r, w) \<Rightarrow> (r, emit (EvPost url vals) (s\<lparr>world := w\<rparr>)))"

definition call_DialAndSend :: "'w extern \<Rightarrow> Notify \<Rightarrow> Message \<Rightarrow> 'w sys \<Rightarrow> error option \<times> 'w sys" where
  "call_DialAndSend X d m s =
     (case gomail_DialAndSend X (world s) d m of
        (r, w) \<Rightarrow> (r, emit (EvDialAndSend m) (s\<lparr>world := w\<rparr>)))"

section \<open>IP resolution (utils.go)\<close>

subsection \<open>GetIPFromInterface\<close>

text \<open>The type switch of the loop body: the address of an interface entry, \<open>[]\<close> for nil.\<close>

definition addr_IP :: "Addr \<Rightarrow> IP" where
  "addr_IP addr = (case addr of IPNet v_IP v_Mask \<Rightarrow> v_IP | IPAddr v_IP v_Zone \<Rightarrow> v_IP | OtherAddr \<Rightarrow> [])"

text \<open>
  The \<^verbatim>\<open>for _, addr := range addrs\<close> loop: \<open>None\<close> when the loop runs off the end of
  the slice, \<open>Some\<close> of the returned string otherwise.
\<close>

fun scan_addrs :: "Addr list \<Rightarrow> string option" where
  "scan_addrs [] = None"
| "scan_addrs (addr # addrs) =
     (let ip = addr_IP addr
      in if ip = [] then scan_addrs addrs
         else if \<not> (IsGlobalUnicast ip \<and>
                    \<not> (IsUnspecified ip \<or>
                       IsMulticast ip \<or>
                       IsLoopback ip \<or>
                       IsLinkLocalUnicast ip \<or>
                       IsLinkLocalMulticast ip \<or>
                       IsInterfaceLocalMulticast ip))
         then scan_addrs addrs
         else if \<not> isIPv4 (IP_String ip) then scan_addrs addrs
         else Some (IP_String ip))"

definition GetIPFromInterface :: "'w extern \<Rightarrow> Settings \<Rightarrow> 'w sys \<Rightarrow> (string \<times> error option) \<times> 'w sys" where
  "GetIPFromInterface X configuration s =
     (case call_InterfaceByName X (IPInterface configuration) s of
        (Inl err, s1) \<Rightarrow>
          (('''', Some err), log_Println (''can't get network device '' @ IPInterface configuration @ '':'') s1)
      | (Inr ifaces, s1) \<Rightarrow>
          (case call_Addrs X ifaces s1 of
             (Inl err, s2) \<Rightarrow>
               (('''', Some err), log_Println (''can't get address from '' @ IPInterface configuration @ '':'') s2)
           | (Inr addrs, s2) \<Rightarrow>
               (case scan_addrs addrs of
                  Some ip \<Rightarrow> ((ip, None), s2)
                | None \<Rightarrow>
                    (('''', Some (Error (''can't get a vaild address from '' @ IPInterface configuration))), s2))))"

subsection \<open>GetHttpClient and GetIPOnline\<close>

text \<open>\<open>None\<close> is the nil client.\<close>

definition GetHttpClient :: "'w extern \<Rightarrow> Settings \<Rightarrow> 'w sys \<Rightarrow> Client option \<times> 'w sys" where
  "GetHttpClient X configuration s =
     (if Socks5Proxy configuration \<noteq> '''' then
        (let s1 = log_Println (''use socks5 proxy:'' @ Socks5Proxy configuration) s
         in case proxy_SOCKS5 X (Socks5Proxy configuration) of
              Some err \<Rightarrow> (None, log_Println ''can't connect to the proxy:'' s1)
            | None \<Rightarrow> (Some (ViaSocks5 (Socks5Proxy configuration)), s1))
      else (Some Direct, s))"

definition GetIPOnline :: "'w extern \<Rightarrow> Settings \<Rightarrow> 'w sys \<Rightarrow> (string \<times> error option) \<times> 'w sys" where
  "GetIPOnline X configuration s =
     (case (if Socks5Proxy configuration \<noteq> '''' then
              (let s1 = log_Println (''use socks5 proxy:'' @ Socks5Proxy configuration) s
               in case proxy_SOCKS5 X (Socks5Proxy configuration) of
                    Some err \<Rightarrow> (Inl err, log_Println ''can't connect to the proxy:'' s1)
                  | None \<Rightarrow> (Inr (ViaSocks5 (Socks5Proxy configuration)), s1))
            else (Inr Direct, s)) of
        (Inl err, s1) \<Rightarrow> (('''', Some err), s1)
      | (Inr client, s1) \<Rightarrow>
          (case call_Get X client (IPUrl configuration) s1 of
             (Inl err, s2) \<Rightarrow> (('''', Some err), log_Println ''Cannot get IP...'' s2)
           | (Inr body, s2) \<Rightarrow> ((Trim body newline, None), s2)))"

subsection \<open>GetCurrentIP\<close>

text \<open>
  The function declares \<^verbatim>\<open>var err error\<close> and returns it on its last line. Inside
  each \<^verbatim>\<open>if\<close> block, \<^verbatim>\<open>ip, err := ...\<close> declares two new variables of the block, so
  the outer \<open>err\<close> is never assigned. In the model a block yields \<open>Some ip\<close> when it
  returns from the function and \<open>None\<close> when control falls through.
\<close>

definition GetCurrentIP :: "'w extern \<Rightarrow> Settings \<Rightarrow> 'w sys \<Rightarrow> (string \<times> error option) \<times> 'w sys" where
  "GetCurrentIP X configuration s =
     (let err = None
      in case (if IPUrl configuration \<noteq> '''' then
                 (case GetIPOnline X configuration s of
                    ((ip, Some err'), s') \<Rightarrow>
                      (None, log_Println ''get ip online failed. Fallback to get ip from interface if possible.'' s')
                  | ((ip, None), s') \<Rightarrow> (Some ip, s'))
               else (None, s)) of
           (Some ip, s1) \<Rightarrow> ((ip, None), s1)
         | (None, s1) \<Rightarrow>
             (case (if IPInterface configuration \<noteq> '''' then
                      (case GetIPFromInterface X configuration s1 of
                         ((ip, Some err'), s') \<Rightarrow>
                           (None, log_Println ''get ip from interface failed. There is no more ways to try.'' s')
                       | ((ip, None), s') \<Rightarrow> (Some ip, s'))
                    else (None, s1)) of
                (Some ip, s2) \<Rightarrow> ((ip, None), s2)
              | (None, s2) \<Rightarrow> (('''', err), s2)))"

subsection \<open>SendNotify\<close>

definition SendNotify :: "'w extern \<Rightarrow> Settings \<Rightarrow> string \<Rightarrow> string \<Rightarrow> 'w sys \<Rightarrow> error option \<times> 'w sys" where
  "SendNotify X configuration domain currentIP s =
     (let s1 = log_Println ''currentIP:'' s;
          s2 = log_Println ''domain:'' s1;
          m = \<lparr>From = SMTPUsername (Notify configuration), To = SendTo (Notify configuration),
               Subject = ''GoDNS Notification'', Body = buildTemplate X currentIP domain\<rparr>
      in case call_DialAndSend X (Notify configuration) m s2 of
           (Some err, s3) \<Rightarrow> (Some err, log_Println ''Send email notification with error:'' s3)
         | (None, s3) \<Rightarrow> (None, s3))"

section \<open>The DNSPod handler (handler/dnspod/dnspod_handler.go)\<close>

record Handler =
  Configuration :: Settings
  API :: string

subsection \<open>The JSON values of go-simplejson\<close>

text \<open>
  \<open>simplejson.NewJson\<close> decodes with \<^verbatim>\<open>UseNumber\<close>, so a JSON number is a
  \<^verbatim>\<open>json.Number\<close>, its text. An object is the list of the members of the decoded Go
  map, each key once; a member is looked up with \<open>map_of\<close>, and \<open>None\<close> is the nil
  interface value the Go map gives for a missing key. A failed type assertion
  \<^verbatim>\<open>x.(T)\<close> panics.
\<close>

datatype fault = Panic string

definition Get :: "json \<Rightarrow> string \<Rightarrow> json" where
  "Get j key = (case j of JObject m \<Rightarrow> (case map_of m key of Some v \<Rightarrow> v | None \<Rightarrow> JNull) | _ \<Rightarrow> JNull)"

definition MustString :: "json \<Rightarrow> string" where
  "MustString j = (case j of JString s \<Rightarrow> s | _ \<Rightarrow> '''')"

text \<open>\<open>Array()\<close> returns the slice, nil when the value is no array; the program drops the error.\<close>

definition Array :: "json \<Rightarrow> json list" where
  "Array j = (case j of JArray xs \<Rightarrow> xs | _ \<Rightarrow> [])"

text \<open>\<^verbatim>\<open>json.Number.Int64()\<close>, the value alone.\<close>

definition Int64 :: "string \<Rightarrow> int" where
  "Int64 t = ParseInt t"

subsection \<open>Requests\<close>

text \<open>
  \<^verbatim>\<open>url.Values\<close> is the list of the pairs added, in the order of the calls of
  \<^verbatim>\<open>Add\<close>; \<open>Values_Get\<close> is the first value of a key.
\<close>

definition Values_Get :: "(string \<times> string) list \<Rightarrow> string \<Rightarrow> string" where
  "Values_Get vs k = (case map_of vs k of Some v \<Rightarrow> v | None \<Rightarrow> '''')"

definition GenerateHeader :: "Handler \<Rightarrow> (string \<times> string) list \<Rightarrow> (string \<times> string) list" where
  "GenerateHeader handler content =
     (if LoginToken (Configuration handler) \<noteq> ''''
      then [(''login_token'', LoginToken (Configuration handler))] else []) @
     [(''format'', ''json''), (''lang'', ''en''), (''error_on_empty'', ''no'')] @
     map (\<lambda>k. (k, Values_Get content k)) (remdups (map fst content))"

text \<open>
  \<open>PostData\<close> builds the request with \<^verbatim>\<open>http.NewRequest\<close> and drops its error. When the
  request is refused, \<open>req\<close> is nil, and the next statement, \<^verbatim>\<open>req.Header.Set\<close>, panics
  with a nil pointer dereference, before anything is sent. The three callers pass the
  three paths of the DNSPod API, so the request is built or refused as \<open>http_NewRequest\<close>
  tells for the API address of the handler. \<open>Inl\<close> is the panic, \<open>Inr\<close> the pair returned.
\<close>

definition PostData ::
  "'w extern \<Rightarrow> Handler \<Rightarrow> string \<Rightarrow> (string \<times> string) list \<Rightarrow> 'w sys \<Rightarrow>
   (fault + string \<times> error option) \<times> 'w sys" where
  "PostData X handler url content s =
     (case GetHttpClient X (Configuration handler) s of
        (None, s1) \<Rightarrow> (Inr ('''', Some (Error ''failed to create HTTP client'')), s1)
      | (Some client, s1) \<Rightarrow>
          (let vals = GenerateHeader handler content
           in case http_NewRequest X (API handler) of
                Some err \<Rightarrow>
                  (Inl (Panic ''runtime error: invalid memory address or nil pointer dereference''), s1)
              | None \<Rightarrow>
                  (case call_Post X client (API handler @ url) vals s1 of
                     (Inl err, s2) \<Rightarrow>
                       (Inr ('''', Some err), log_Println '''' (log_Println ''Post failed...'' s2))
                   | (Inr resp, s2) \<Rightarrow> (Inr (resp, None), s2))))"

subsection \<open>GetDomain\<close>

text \<open>
  The loop over the decoded domains; \<open>ret\<close> is 0 when the loop starts. The loop stops at
  the first entry whose name matches, and assigns \<open>ret\<close> only when the id of that entry
  is a \<^verbatim>\<open>json.Number\<close>.
\<close>

fun GetDomain_loop :: "json list \<Rightarrow> string \<Rightarrow> fault + int" where
  "GetDomain_loop [] name = Inr 0"
| "GetDomain_loop (d # domains) name =
     (case d of
        JObject m \<Rightarrow>
          (if map_of m ''name'' = Some (JString name)
           then (case map_of m ''id'' of Some (JNumber t) \<Rightarrow> Inr (Int64 t) | _ \<Rightarrow> Inr 0)
           else GetDomain_loop domains name)
      | _ \<Rightarrow> Inl (Panic ''interface conversion: interface {} is not map[string]interface {}''))"

definition GetDomain :: "'w extern \<Rightarrow> Handler \<Rightarrow> string \<Rightarrow> 'w sys \<Rightarrow> (fault + int) \<times> 'w sys" where
  "GetDomain X handler name s =
     (let vals = [(''type'', ''all''), (''offset'', ''0''), (''length'', ''20'')]
      in case PostData X handler ''/Domain.List'' vals s of
           (Inl p, s1) \<Rightarrow> (Inl p, s1)
         | (Inr (response, Some err), s1) \<Rightarrow> (Inr (- 1), log_Println ''Failed to get domain list...'' s1)
         | (Inr (response, None), s1) \<Rightarrow>
             (case simplejson_NewJson X response of
                None \<Rightarrow> (Inr (- 1), log_Println '''' s1)
              | Some sjson \<Rightarrow>
                  (if MustString (Get (Get sjson ''status'') ''code'') = ''1'' then
                     (let domains = Array (Get sjson ''domains'')
                      in case GetDomain_loop domains name of
                           Inl p \<Rightarrow> (Inl p, s1)
                         | Inr ret \<Rightarrow>
                             (Inr ret,
                              if length domains = 0 then log_Println ''domains slice is empty.'' s1 else s1))
                   else (Inr 0, log_Println ''get_domain:status code:'' s1))))"

subsection \<open>GetSubDomain\<close>

fun GetSubDomain_loop :: "json list \<Rightarrow> string \<Rightarrow> fault + (string \<times> string)" where
  "GetSubDomain_loop [] name = Inr ('''', '''')"
| "GetSubDomain_loop (d # records) name =
     (case d of
        JObject m \<Rightarrow>
          (if map_of m ''name'' = Some (JString name)
           then (case map_of m ''id'' of
                   Some (JString ret) \<Rightarrow>
                     (case map_of m ''value'' of
                        Some (JString ip) \<Rightarrow> Inr (ret, ip)
                      | _ \<Rightarrow> Inl (Panic ''interface conversion: interface {} is not string''))
                 | _ \<Rightarrow> Inl (Panic ''interface conversion: interface {} is not string''))
           else GetSubDomain_loop records name)
      | _ \<Rightarrow> Inl (Panic ''interface conversion: interface {} is not map[string]interface {}''))"

definition GetSubDomain ::
  "'w extern \<Rightarrow> Handler \<Rightarrow> int \<Rightarrow> string \<Rightarrow> 'w sys \<Rightarrow> (fault + (string \<times> string)) \<times> 'w sys" where
  "GetSubDomain X handler domainID name s =
     (let s0 = log_Println ''debug:'' s;
          vals = [(''domain_id'', FormatInt domainID), (''offset'', ''0''), (''length'', ''1''),
                  (''sub_domain'', name)]
      in case PostData X handler ''/Record.List'' vals s0 of
           (Inl p, s1) \<Rightarrow> (Inl p, s1)
         | (Inr (response, Some err), s1) \<Rightarrow> (Inr ('''', ''''), log_Println ''Failed to get domain list'' s1)
         | (Inr (response, None), s1) \<Rightarrow>
             (case simplejson_NewJson X response of
                None \<Rightarrow> (Inr ('''', ''''), log_Println '''' s1)
              | Some sjson \<Rightarrow>
                  (if MustString (Get (Get sjson ''status'') ''code'') = ''1'' then
                     (let records = Array (Get sjson ''records'')
                      in case GetSubDomain_loop records name of
                           Inl p \<Rightarrow> (Inl p, s1)
                         | Inr r \<Rightarrow>
                             (Inr r,
                              if length records = 0 then log_Println ''records slice is empty.'' s1 else s1))
                   else (Inr ('''', ''''), log_Println ''get_subdomain:status code:'' s1))))"

subsection \<open>UpdateIP\<close>

text \<open>The record line is the UTF-8 text of the two Chinese characters for "default".\<close>

definition record_line_default :: string where
  "record_line_default = [CHR 0xE9, CHR 0xBB, CHR 0x98, CHR 0xE8, CHR 0xAE, CHR 0xA4]"

text \<open>\<open>UpdateIP\<close> returns nothing: \<open>Some p\<close> when the request helper panics, \<open>None\<close> when it returns.\<close>

definition UpdateIP ::
  "'w extern \<Rightarrow> Handler \<Rightarrow> int \<Rightarrow> string \<Rightarrow> string \<Rightarrow> string \<Rightarrow> 'w sys \<Rightarrow> fault option \<times> 'w sys" where
  "UpdateIP X handler domainID subDomainID subDomainName ip s =
     (let vals = [(''domain_id'', FormatInt domainID), (''record_id'', subDomainID),
                  (''sub_domain'', subDomainName), (''record_type'', ''A''),
                  (''record_line'', record_line_default), (''value'', ip)]
      in case PostData X handler ''/Record.Modify'' vals s of
           (Inl p, s1) \<Rightarrow> (Some p, s1)
         | (Inr (response, Some err), s1) \<Rightarrow>
             (None, log_Println '''' (log_Println ''Failed to update record to new IP!'' s1))
         | (Inr (response, None), s1) \<Rightarrow>
             (case simplejson_NewJson X response of
                None \<Rightarrow> (None, log_Println '''' s1)
              | Some sjson \<Rightarrow>
                  (if MustString (Get (Get sjson ''status'') ''code'') = ''1''
                   then (None, log_Println ''New IP updated!'' s1) else (None, s1))))"

subsection \<open>DomainLoop\<close>

text \<open>
  The body of the loop over the subdomains, for one subdomain: \<open>Some p\<close> when it panics,
  \<open>None\<close> when the loop goes on to the next subdomain.
\<close>

definition subdomain_step ::
  "'w extern \<Rightarrow> Handler \<Rightarrow> Domain \<Rightarrow> int \<Rightarrow> string \<Rightarrow> string \<Rightarrow> 'w sys \<Rightarrow> fault option \<times> 'w sys" where
  "subdomain_step X handler domain domainID currentIP subDomain s =
     (case GetSubDomain X handler domainID subDomain s of
        (Inl p, s1) \<Rightarrow> (Some p, s1)
      | (Inr (subDomainID, ip), s1) \<Rightarrow>
          (if subDomainID = '''' \<or> ip = '''' then
             (None, log_Println ''Domain or subdomain not configured yet. domain: %s.%s subDomainID: %s ip: %s'' s1)
           else if length ip > 0 \<and> TrimRight currentIP newline \<noteq> TrimRight ip newline then
             (let s2 = log_Println ''%s.%s Start to update record IP...'' s1
              in case UpdateIP X handler domainID subDomainID subDomain currentIP s2 of
                   (Some p, s3) \<Rightarrow> (Some p, s3)
                 | (None, s3) \<Rightarrow>
                     (if Enabled (Notify (Configuration handler)) then
                        (let s4 = log_Println ''Sending notification to:'' s3
                         in case SendNotify X (Configuration handler) (subDomain @ ''.'' @ DomainName domain)
                                   currentIP s4 of
                              (Some err, s5) \<Rightarrow> (None, log_Println ''Failed to send notification'' s5)
                            | (None, s5) \<Rightarrow> (None, s5))
                      else (None, s3)))
           else (None, log_Println ''%s.%s Current IP is same as domain IP, no need to update...'' s1)))"

fun subdomains_loop ::
  "'w extern \<Rightarrow> Handler \<Rightarrow> Domain \<Rightarrow> int \<Rightarrow> string \<Rightarrow> string list \<Rightarrow> 'w sys \<Rightarrow> fault option \<times> 'w sys" where
  "subdomains_loop X handler domain domainID currentIP [] s = (None, s)"
| "subdomains_loop X handler domain domainID currentIP (subDomain # rest) s =
     (case subdomain_step X handler domain domainID currentIP subDomain s of
        (Some p, s1) \<Rightarrow> (Some p, s1)
      | (None, s1) \<Rightarrow> subdomains_loop X handler domain domainID currentIP rest s1)"

text \<open>
  One iteration of the \<^verbatim>\<open>for\<close> loop of \<open>DomainLoop\<close>, started with the cached \<open>lastIP\<close>:
  \<open>Inl p\<close> when the iteration panics, \<open>Inr lastIP'\<close> when the loop goes on to the next
  iteration with \<open>lastIP'\<close> cached.
\<close>

definition DomainLoop_cycle ::
  "'w extern \<Rightarrow> Handler \<Rightarrow> Domain \<Rightarrow> string \<Rightarrow> 'w sys \<Rightarrow> (fault + string) \<times> 'w sys" where
  "DomainLoop_cycle X handler domain lastIP s =
     (case GetDomain X handler (DomainName domain) (log_Println ''Checking IP for domain %s'' s) of
        (Inl p, s1) \<Rightarrow> (Inl p, s1)
      | (Inr domainID, s1) \<Rightarrow>
          (if domainID = - 1 then (Inr lastIP, s1)
           else
             (case GetCurrentIP X (Configuration handler) s1 of
                ((currentIP, Some err), s2) \<Rightarrow> (Inr lastIP, log_Println ''get_currentIP:'' s2)
              | ((currentIP, None), s2) \<Rightarrow>
                  (case (if currentIP = lastIP then
                           (Inr lastIP,
                            log_Println ''IP is the same as cached one. Skip update.''
                              (log_Println ''currentIP is:'' s2))
                         else
                           (case subdomains_loop X handler domain domainID currentIP (SubDomains domain)
                                   (log_Println ''currentIP is:'' s2) of
                              (Some p, s3) \<Rightarrow> (Inl p, s3)
                            | (None, s3) \<Rightarrow> (Inr currentIP, s3))) of
                     (Inl p, s4) \<Rightarrow> (Inl p, s4)
                   | (Inr lastIP', s4) \<Rightarrow>
                       (Inr lastIP',
                        emit (EvSleep (Interval (Configuration handler)))
                          (log_Println ''Going to sleep, will start next checking in %d seconds...'' s4))))))"

text \<open>
  The first \<open>n\<close> iterations of \<open>DomainLoop\<close>. The loop has no exit of its own; a panic
  ends it in the deferred function, which logs and sends the domain on the panic channel.
\<close>

fun DomainLoop_cycles ::
  "nat \<Rightarrow> 'w extern \<Rightarrow> Handler \<Rightarrow> Domain \<Rightarrow> string \<Rightarrow> 'w sys \<Rightarrow> (fault + string) \<times> 'w sys" where
  "DomainLoop_cycles 0 X handler domain lastIP s = (Inr lastIP, s)"
| "DomainLoop_cycles (Suc n) X handler domain lastIP s =
     (case DomainLoop_cycle X handler domain lastIP s of
        (Inl p, s1) \<Rightarrow> (Inl p, emit (EvPanicChan (DomainName domain)) (log_Println ''Recovered in %v: %v'' s1))
      | (Inr lastIP', s1) \<Rightarrow> DomainLoop_cycles n X handler domain lastIP' s1)"

definition DomainLoop ::
  "nat \<Rightarrow> 'w extern \<Rightarrow> Handler \<Rightarrow> Domain \<Rightarrow> 'w sys \<Rightarrow> (fault + string) \<times> 'w sys" where
  "DomainLoop n X handler domain s = DomainLoop_cycles n X handler domain '''' s"

section \<open>The Cloudflare handler (handler/cloudflare_handler.go)\<close>

text \<open>
  The handler struct has the fields of the DNSPod handler, so the record \<open>Handler\<close> stands
  for it too. The fields of the API structs carry a prefix, since \<open>Name\<close> is taken.
  \<open>json.Unmarshal\<close> into each of the three response structs and \<open>json.Marshal\<close> of a
  record are functions of the record \<open>C\<close>, as is the constant \<open>godns.INTERVAL\<close>, which the
  sources do not define. \<open>cf_NewRequest\<close> is the error, if any, with which
  \<^verbatim>\<open>http.NewRequest\<close> refuses to build a request for a method and an address; the
  addresses of this handler hold the ids that the provider has answered.
\<close>

record DNSRecord =
  rec_ID :: string
  rec_IP :: string
  rec_Name :: string
  rec_Proxied :: bool
  rec_Type :: string
  rec_ZoneID :: string

record Zone =
  zone_ID :: string
  zone_Name :: string

record ZoneResponse =
  Zones :: "Zone list"
  zr_Success :: bool

record DNSRecordResponse =
  Records :: "DNSRecord list"
  rr_Success :: bool

record DNSRecordUpdateResponse =
  Record :: DNSRecord
  ur_Success :: bool

record 'w cloudflare_api =
  cf_NewRequest :: "string \<Rightarrow> string \<Rightarrow> error option"
  client_Do :: "'w \<Rightarrow> Client \<Rightarrow> string \<Rightarrow> string \<Rightarrow> string \<Rightarrow> (error + string) \<times> 'w"
  Unmarshal_ZoneResponse :: "string \<Rightarrow> ZoneResponse option"
  Unmarshal_DNSRecordResponse :: "string \<Rightarrow> DNSRecordResponse option"
  Unmarshal_DNSRecordUpdateResponse :: "string \<Rightarrow> DNSRecordUpdateResponse option"
  Marshal_DNSRecord :: "DNSRecord \<Rightarrow> string"
  INTERVAL :: int

definition SetIP :: "DNSRecord \<Rightarrow> string \<Rightarrow> DNSRecord" where
  "SetIP r ip = r\<lparr>rec_IP := ip\<rparr>"

definition recordTracked :: "Domain \<Rightarrow> DNSRecord \<Rightarrow> bool" where
  "recordTracked domain record =
     (if rec_Name record = DomainName domain then True
      else list_ex (\<lambda>subDomain. rec_Name record = subDomain @ ''.'' @ DomainName domain) (SubDomains domain))"

text \<open>
  \<open>newRequest\<close>: the client of the request; a proxy that cannot be set up is logged and
  left out. The function drops the error of \<^verbatim>\<open>http.NewRequest\<close>: when the request is
  refused, \<open>req\<close> is nil and \<^verbatim>\<open>req.Header.Set\<close> panics with a nil pointer dereference.
  \<open>Inl\<close> is the panic, \<open>Inr\<close> the client returned with the request.
\<close>

definition newRequest ::
  "'w extern \<Rightarrow> 'w cloudflare_api \<Rightarrow> Handler \<Rightarrow> string \<Rightarrow> string \<Rightarrow> 'w sys \<Rightarrow> (fault + Client) \<times> 'w sys" where
  "newRequest X C handler method url s =
     (case (if Socks5Proxy (Configuration handler) \<noteq> '''' then
              (let s1 = log_Println (''use socks5 proxy:'' @ Socks5Proxy (Configuration handler)) s
               in case proxy_SOCKS5 X (Socks5Proxy (Configuration handler)) of
                    Some err \<Rightarrow> (Direct, log_Println ''can't connect to the proxy:'' s1)
                  | None \<Rightarrow> (ViaSocks5 (Socks5Proxy (Configuration handler)), s1))
            else (Direct, s)) of
        (client, s2) \<Rightarrow>
          (case cf_NewRequest C method (API handler @ url) of
             Some err \<Rightarrow>
               (Inl (Panic ''runtime error: invalid memory address or nil pointer dereference''), s2)
           | None \<Rightarrow> (Inr client, s2)))"

definition call_Do ::
  "'w cloudflare_api \<Rightarrow> Client \<Rightarrow> string \<Rightarrow> string \<Rightarrow> string \<Rightarrow> 'w sys \<Rightarrow> (error + string) \<times> 'w sys" where
  "call_Do C client method url body s =
     (case client_Do C (world s) client method url body of
        (r, w) \<Rightarrow> (r, emit (EvRequest method url body) (s\<lparr>world := w\<rparr>)))"

definition getZone ::
  "'w extern \<Rightarrow> 'w cloudflare_api \<Rightarrow> Handler \<Rightarrow> string \<Rightarrow> 'w sys \<Rightarrow> (fault + string) \<times> 'w sys" where
  "getZone X C handler domain s =
     (case newRequest X C handler ''GET'' ''/zones'' s of
        (Inl p, s1) \<Rightarrow> (Inl p, s1)
      | (Inr client, s1) \<Rightarrow>
          (case call_Do C client ''GET'' (API handler @ ''/zones'') '''' s1 of
             (Inl err, s2) \<Rightarrow> (Inr '''', log_Println ''Request error:'' s2)
           | (Inr body, s2) \<Rightarrow>
               (case Unmarshal_ZoneResponse C body of
                  None \<Rightarrow> (Inr '''', log_Println ''Response body: %+v'' (log_Println ''Decoder error: %+v'' s2))
                | Some z \<Rightarrow>
                    (if zr_Success z \<noteq> True then (Inr '''', log_Println ''Response failed: %+v'' s2)
                     else (case find (\<lambda>zone. zone_Name zone = domain) (Zones z) of
                             Some zone \<Rightarrow> (Inr (zone_ID zone), s2)
                           | None \<Rightarrow> (Inr '''', s2))))))"

definition getDNSRecords ::
  "'w extern \<Rightarrow> 'w cloudflare_api \<Rightarrow> Handler \<Rightarrow> string \<Rightarrow> 'w sys \<Rightarrow> (fault + DNSRecord list) \<times> 'w sys" where
  "getDNSRecords X C handler zoneID s =
     (case newRequest X C handler ''GET'' (''/zones/'' @ zoneID @ ''/dns_records?type=A'') s of
        (Inl p, s1) \<Rightarrow> (Inl p, s1)
      | (Inr client, s1) \<Rightarrow>
          (case call_Do C client ''GET'' (API handler @ ''/zones/'' @ zoneID @ ''/dns_records?type=A'') '''' s1 of
             (Inl err, s2) \<Rightarrow> (Inr [], log_Println ''Request error:'' s2)
           | (Inr body, s2) \<Rightarrow>
               (case Unmarshal_DNSRecordResponse C body of
                  None \<Rightarrow> (Inr [], log_Println ''Response body: %+v'' (log_Println ''Decoder error: %+v'' s2))
                | Some r \<Rightarrow>
                    (if rr_Success r \<noteq> True then (Inr [], log_Println ''Response failed: %+v'' s2)
                     else (Inr (Records r), s2)))))"

text \<open>\<open>updateRecord\<close> returns nothing: \<open>Some p\<close> when \<open>newRequest\<close> panics, \<open>None\<close> otherwise.\<close>

definition updateRecord ::
  "'w extern \<Rightarrow> 'w cloudflare_api \<Rightarrow> Handler \<Rightarrow> DNSRecord \<Rightarrow> string \<Rightarrow> 'w sys \<Rightarrow> fault option \<times> 'w sys" where
  "updateRecord X C handler record0 newIP s =
     (let record = SetIP record0 newIP;
          j = Marshal_DNSRecord C record
      in case newRequest X C handler ''PUT'' (''/zones/'' @ rec_ZoneID record @ ''/dns_records/'' @ rec_ID record) s of
           (Inl p, s1) \<Rightarrow> (Some p, s1)
         | (Inr client, s1) \<Rightarrow>
             (case call_Do C client ''PUT''
                     (API handler @ ''/zones/'' @ rec_ZoneID record @ ''/dns_records/'' @ rec_ID record) j s1 of
                (Inl err, s2) \<Rightarrow> (None, log_Println ''Request error:'' s2)
              | (Inr body, s2) \<Rightarrow>
                  (case Unmarshal_DNSRecordUpdateResponse C body of
                     None \<Rightarrow> (None, log_Println ''Response body: %+v'' (log_Println ''Decoder error: %+v'' s2))
                   | Some r \<Rightarrow>
                       (if ur_Success r \<noteq> True then (None, log_Println ''Response failed: %+v'' s2)
                        else (None, log_Println ''Record updated: %+v - %+v'' s2)))))"

text \<open>The loop over the records of the zone: \<open>Some p\<close> when an update panics.\<close>

fun update_records ::
  "'w extern \<Rightarrow> 'w cloudflare_api \<Rightarrow> Handler \<Rightarrow> Domain \<Rightarrow> string \<Rightarrow> DNSRecord list \<Rightarrow> 'w sys \<Rightarrow>
   fault option \<times> 'w sys" where
  "update_records X C handler domain currentIP [] s = (None, s)"
| "update_records X C handler domain currentIP (rec # records) s =
     (if recordTracked domain rec \<noteq> True
      then update_records X C handler domain currentIP records (log_Println ''Skiping record:'' s)
      else if rec_IP rec \<noteq> currentIP
      then (case updateRecord X C handler rec currentIP
                   (log_Println ''IP mismatch: Current(%+v) vs Cloudflare(%+v)'' s) of
              (Some p, s1) \<Rightarrow> (Some p, s1)
            | (None, s1) \<Rightarrow> update_records X C handler domain currentIP records s1)
      else update_records X C handler domain currentIP records (log_Println ''Record OK: %+v - %+v'' s))"

text \<open>
  One iteration of the \<^verbatim>\<open>for\<close> loop of the Cloudflare \<open>DomainLoop\<close>: \<open>Some p\<close> when the
  iteration panics, \<open>None\<close> when the loop goes on to the next iteration. It has no cached
  IP.
\<close>

definition Cloudflare_DomainLoop_cycle ::
  "'w extern \<Rightarrow> 'w cloudflare_api \<Rightarrow> Handler \<Rightarrow> Domain \<Rightarrow> 'w sys \<Rightarrow> fault option \<times> 'w sys" where
  "Cloudflare_DomainLoop_cycle X C handler domain s =
     (case GetCurrentIP X (Configuration handler) s of
        ((currentIP, Some err), s1) \<Rightarrow> (None, log_Println ''Error in GetCurrentIP:'' s1)
      | ((currentIP, None), s1) \<Rightarrow>
          (let s2 = log_Println ''Checking IP for domain'' (log_Println ''Current IP is:'' s1)
           in case getZone X C handler (DomainName domain) s2 of
                (Inl p, s3) \<Rightarrow> (Some p, s3)
              | (Inr zoneID, s3) \<Rightarrow>
                  (case (if zoneID \<noteq> '''' then
                           (case getDNSRecords X C handler zoneID s3 of
                              (Inl p, s') \<Rightarrow> (Some p, s')
                            | (Inr records, s') \<Rightarrow> update_records X C handler domain currentIP records s')
                         else (None, log_Println ''Failed to find zone for domain:'' s3)) of
                     (Some p, s4) \<Rightarrow> (Some p, s4)
                   | (None, s4) \<Rightarrow>
                       (None,
                        emit (EvSleep (60 * INTERVAL C))
                          (log_Println ''Going to sleep, will start next checking in %d minutes...'' s4)))))"

section \<open>The supervisor\<close>

text \<open>The constant of utils.go: the maximal number of panics allowed.\<close>

definition PanicMax :: nat where
  "PanicMax = 5"

text \<open>
  Modelled from the spec: the state of the Supervisor (section 4.5), whose code is not
  among the sources. The Supervisor keeps a failure counter per domain; a domain is named
  by its domain name, and the state also records what the supervisor has done so far:
  the loops it started, the loops it relaunched and the domains it gave up.
\<close>

datatype action = Start string | Relaunch string | Abandon string

record supervisor =
  counter :: "string \<Rightarrow> nat"
  actions :: "action list"

text \<open>
  Modelled from the spec: at the start the Supervisor (section 4.5, not among the sources)
  launches one Domain Loop per configured domain; every failure counter is zero.
\<close>

definition Supervisor_start :: "Domain list \<Rightarrow> supervisor" where
  "Supervisor_start configs =
     \<lparr>counter = (\<lambda>d. 0), actions = map (\<lambda>c. Start (DomainName c)) configs\<rparr>"

text \<open>
  Modelled from the spec: what the Supervisor (section 4.5, not among the sources) does
  on receiving a FailureSignal for a domain. It increments the counter of that domain;
  if the counter is then below \<open>PanicMax\<close> it relaunches a fresh Domain Loop for the
  domain; otherwise it logs a terminal message for the domain and does not relaunch.
\<close>

definition on_FailureSignal :: "string \<Rightarrow> supervisor \<Rightarrow> supervisor" where
  "on_FailureSignal d st =
     (let n = counter st d + 1
      in \<lparr>counter = (counter st)(d := n),
          actions = actions st @ [if n < PanicMax then Relaunch d else Abandon d]\<rparr>)"

text \<open>
  Modelled from the spec: the Supervisor (section 4.5, not among the sources) is the sole
  consumer of the failure signals and handles them one by one, in the order they arrive.
\<close>

fun Supervisor_run :: "supervisor \<Rightarrow> string list \<Rightarrow> supervisor" where
  "Supervisor_run st [] = st"
| "Supervisor_run st (d # signals) = Supervisor_run (on_FailureSignal d st) signals"

text \<open>How often a domain has been relaunched, and what the supervisor did about a domain.\<close>

definition relaunches :: "string \<Rightarrow> supervisor \<Rightarrow> nat" where
  "relaunches d st = count_list (actions st) (Relaunch d)"

fun about :: "string \<Rightarrow> action \<Rightarrow> bool" where
  "about d (Start x) = (x = d)"
| "about d (Relaunch x) = (x = d)"
| "about d (Abandon x) = (x = d)"

section \<open>Properties stated by the specification\<close>

text \<open>
  An address the interface resolver may return, in the words of the specification and
  of the guard in the code: a global unicast address that is not unspecified, not
  multicast, not loopback, not link-local, and an IPv4 address (in four-byte or in
  IPv4-mapped form).
\<close>

definition eligible :: "IP \<Rightarrow> bool" where
  "eligible ip =
     (IsGlobalUnicast ip \<and> \<not> IsUnspecified ip \<and> \<not> IsMulticast ip \<and> \<not> IsLoopback ip \<and>
      \<not> IsLinkLocalUnicast ip \<and> \<not> IsLinkLocalMulticast ip \<and> To4 ip \<noteq> [])"

text \<open>The same without the global-unicast guard: only the filters the specification lists.\<close>

definition passes_listed_filters :: "IP \<Rightarrow> bool" where
  "passes_listed_filters ip =
     (ip \<noteq> [] \<and> \<not> IsUnspecified ip \<and> \<not> IsMulticast ip \<and> \<not> IsLoopback ip \<and>
      \<not> IsLinkLocalUnicast ip \<and> \<not> IsLinkLocalMulticast ip \<and> To4 ip \<noteq> [])"

text \<open>The provider API calls and the notifications among the events of a trace.\<close>

fun is_provider_call :: "event \<Rightarrow> bool" where
  "is_provider_call (EvPost url vals) = True"
| "is_provider_call (EvRequest method url body) = True"
| "is_provider_call e = False"

fun is_mail :: "event \<Rightarrow> bool" where
  "is_mail (EvDialAndSend m) = True"
| "is_mail e = False"

definition provider_calls :: "event list \<Rightarrow> event list" where
  "provider_calls evs = filter is_provider_call evs"

definition mails :: "event list \<Rightarrow> event list" where
  "mails evs = filter is_mail evs"

text \<open>The request of \<open>GetDomain\<close>: the domain list, capped at 20 entries by \<open>length\<close>.\<close>

definition Domain_List_call :: "Handler \<Rightarrow> event" where
  "Domain_List_call handler =
     EvPost (API handler @ ''/Domain.List'')
       (GenerateHeader handler [(''type'', ''all''), (''offset'', ''0''), (''length'', ''20'')])"

text \<open>A domain name is absent from a decoded list of domain objects.\<close>

definition name_absent :: "string \<Rightarrow> json list \<Rightarrow> bool" where
  "name_absent name domains =
     list_all (\<lambda>d. case d of JObject m \<Rightarrow> map_of m ''name'' \<noteq> Some (JString name) | _ \<Rightarrow> False) domains"

section \<open>Concrete worlds and settings\<close>

text \<open>
  The one refusal of \<^verbatim>\<open>http.NewRequest\<close> in the worlds below: \<^verbatim>\<open>url.Parse\<close> refuses an
  address that holds a control character, whatever else it holds. The line feed stands
  for the control characters.
\<close>

definition refuse_control_character :: "string \<Rightarrow> error option" where
  "refuse_control_character address =
     (if CHR 0x0A \<in> set address then Some (Error ''net/url: invalid control character in URL'') else None)"

text \<open>
  A world without state: the interface always exists and reports \<open>addrs\<close>, the IP echo
  service answers \<open>online\<close>, the provider answers \<open>post url vals\<close>, the JSON decoder is
  \<open>parse\<close>, and sending mail gives \<open>mail\<close>.
\<close>

definition fixed_world ::
  "(error + Addr list) \<Rightarrow> (error + string) \<Rightarrow> (string \<Rightarrow> (string \<times> string) list \<Rightarrow> error + string) \<Rightarrow>
   (string \<Rightarrow> json option) \<Rightarrow> error option \<Rightarrow> unit extern" where
  "fixed_world addrs online post parse mail =
     \<lparr>net_InterfaceByName = (\<lambda>w name. (Inr \<lparr>Index = 2, Name = name\<rparr>, w)),
      net_Addrs = (\<lambda>w ifaces. (addrs, w)),
      proxy_SOCKS5 = (\<lambda>a. None),
      http_Get = (\<lambda>w client url. (online, w)),
      http_NewRequest = refuse_control_character,
      http_Post = (\<lambda>w client url vals. (post url vals, w)),
      simplejson_NewJson = parse,
      buildTemplate = (\<lambda>currentIP domain. domain @ '' '' @ currentIP),
      gomail_DialAndSend = (\<lambda>w d m. (mail, w))\<rparr>"

definition no_post :: "string \<Rightarrow> (string \<times> string) list \<Rightarrow> error + string" where
  "no_post url vals = Inl (Error ''connection refused'')"

definition no_json :: "string \<Rightarrow> json option" where
  "no_json body = None"

definition demo_addrs :: "Addr list" where
  "demo_addrs =
     [IPNet (IPv4 127 0 0 1) [255, 0, 0, 0],
      OtherAddr,
      IPNet (IPv4 169 254 7 7) [255, 255, 0, 0],
      IPAddr [0x20, 0x01, 0x0d, 0xb8, 0, 0, 0, 0, 0, 0, 0, 0, 0, 0, 0, 1] '''',
      IPNet (IPv4 224 0 0 251) [255, 255, 255, 0],
      IPNet (IPv4 192 168 1 10) [255, 255, 255, 0],
      IPNet (IPv4 10 0 0 7) [255, 0, 0, 0]]"

definition bcast_addrs :: "Addr list" where
  "bcast_addrs =
     [IPNet (IPv4 255 255 255 255) [255, 255, 255, 255],
      IPNet (IPv4 192 168 1 10) [255, 255, 255, 0]]"

definition settings0 :: Settings where
  "settings0 =
     \<lparr>Provider = ''DNSPod'', Email = '''', Password = '''', LoginToken = ''12345,token'',
      Domains = [\<lparr>DomainName = ''example.com'', SubDomains = [''home'']\<rparr>],
      IPUrl = ''http://members.3322.org/dyndns/getip'', Interval = 300, UserAgent = '''',
      LogPath = '''', Socks5Proxy = '''',
      Notify = \<lparr>Enabled = True, SMTPServer = ''smtp.example.com'', SMTPUsername = ''me@example.com'',
                SMTPPassword = ''secret'', SMTPPort = 25, SendTo = ''you@example.com''\<rparr>,
      IPInterface = ''eth0''\<rparr>"

definition s0 :: "unit sys" where
  "s0 = \<lparr>world = (), trace = []\<rparr>"

text \<open>
  A DNSPod account with the domain \<open>example.com\<close> (id \<open>domain_id\<close>) and one record
  \<open>home\<close> whose value is \<open>record_value\<close>. The bodies of the three API answers are named,
  and the decoder maps each name to its JSON value. \<open>modify\<close> is the outcome of the
  \<open>Record.Modify\<close> request.
\<close>

definition status_ok :: "string \<times> json" where
  "status_ok = (''status'', JObject [(''code'', JString ''1''), (''message'', JString ''Action completed successful'')])"

definition domains_json :: "string \<Rightarrow> json" where
  "domains_json domain_id =
     JObject [status_ok,
              (''domains'', JArray [JObject [(''id'', JNumber domain_id), (''name'', JString ''example.com'')]])]"

definition records_json :: "string \<Rightarrow> json" where
  "records_json record_value =
     JObject [status_ok,
              (''records'', JArray [JObject [(''id'', JString ''16894439''), (''name'', JString ''home''),
                                           (''value'', JString record_value)]])]"

definition dnspod_post :: "error + string \<Rightarrow> string \<Rightarrow> (string \<times> string) list \<Rightarrow> error + string" where
  "dnspod_post modify url vals =
     (if url = ''https://dnsapi.cn/Domain.List'' then Inr ''Domain.List answer''
      else if url = ''https://dnsapi.cn/Record.List'' then Inr ''Record.List answer''
      else if url = ''https://dnsapi.cn/Record.Modify'' then modify
      else Inl (Error ''404''))"

definition dnspod_json :: "string \<Rightarrow> string \<Rightarrow> string \<Rightarrow> json option" where
  "dnspod_json domain_id record_value body =
     (if body = ''Domain.List answer'' then Some (domains_json domain_id)
      else if body = ''Record.List answer'' then Some (records_json record_value)
      else if body = ''Record.Modify answer'' then Some (JObject [status_ok])
      else None)"

definition dnspod_world :: "string \<Rightarrow> string \<Rightarrow> string \<Rightarrow> error + string \<Rightarrow> error option \<Rightarrow> unit extern" where
  "dnspod_world online_body domain_id record_value modify mail =
     fixed_world (Inr demo_addrs) (Inr online_body) (dnspod_post modify)
       (dnspod_json domain_id record_value) mail"

text \<open>
  The same account in a world with a state, the number of answers the IP echo service
  has given: its first answer ends with a line feed, every later answer with carriage
  return and line feed. The address is 1.2.3.4 throughout, and so is the record.
\<close>

definition crlf_world :: "nat extern" where
  "crlf_world =
     \<lparr>net_InterfaceByName = (\<lambda>w name. (Inr \<lparr>Index = 2, Name = name\<rparr>, w)),
      net_Addrs = (\<lambda>w ifaces. (Inr demo_addrs, w)),
      proxy_SOCKS5 = (\<lambda>a. None),
      http_Get = (\<lambda>w client url.
        (Inr (if w = 0 then ''1.2.3.4'' @ [CHR 0x0A] else ''1.2.3.4'' @ [CHR 0x0D, CHR 0x0A]), Suc w)),
      http_NewRequest = refuse_control_character,
      http_Post = (\<lambda>w client url vals. (dnspod_post (Inr ''Record.Modify answer'') url vals, w)),
      simplejson_NewJson = dnspod_json ''7'' ''1.2.3.4'',
      buildTemplate = (\<lambda>currentIP domain. domain @ '' '' @ currentIP),
      gomail_DialAndSend = (\<lambda>w d m. (None, w))\<rparr>"

definition handler0 :: Handler where
  "handler0 = \<lparr>Configuration = settings0, API = ''https://dnsapi.cn''\<rparr>"

text \<open>The same handler with a line feed left at the end of the configured API address.\<close>

definition handler_lf :: Handler where
  "handler_lf = \<lparr>Configuration = settings0, API = ''https://dnsapi.cn'' @ [CHR 0x0A]\<rparr>"

definition domain0 :: Domain where
  "domain0 = \<lparr>DomainName = ''example.com'', SubDomains = [''home'']\<rparr>"

text \<open>The requests and the mail seen in the traces of this account.\<close>

definition domain_list_post :: event where
  "domain_list_post =
     EvPost ''https://dnsapi.cn/Domain.List''
       [(''login_token'', ''12345,token''), (''format'', ''json''), (''lang'', ''en''),
        (''error_on_empty'', ''no''), (''type'', ''all''), (''offset'', ''0''), (''length'', ''20'')]"

definition record_list_post :: "string \<Rightarrow> event" where
  "record_list_post domain_id =
     EvPost ''https://dnsapi.cn/Record.List''
       [(''login_token'', ''12345,token''), (''format'', ''json''), (''lang'', ''en''),
        (''error_on_empty'', ''no''), (''domain_id'', domain_id), (''offset'', ''0''), (''length'', ''1''),
        (''sub_domain'', ''home'')]"

definition record_modify_post :: "string \<Rightarrow> string \<Rightarrow> event" where
  "record_modify_post domain_id ip =
     EvPost ''https://dnsapi.cn/Record.Modify''
       [(''login_token'', ''12345,token''), (''format'', ''json''), (''lang'', ''en''),
        (''error_on_empty'', ''no''), (''domain_id'', domain_id), (''record_id'', ''16894439''),
        (''sub_domain'', ''home''), (''record_type'', ''A''),
        (''record_line'', [CHR 0xE9, CHR 0xBB, CHR 0x98, CHR 0xE8, CHR 0xAE, CHR 0xA4]),
        (''value'', ip)]"

definition notification :: "string \<Rightarrow> string \<Rightarrow> event" where
  "notification name ip =
     EvDialAndSend \<lparr>From = ''me@example.com'', To = ''you@example.com'',
                    Subject = ''GoDNS Notification'', Body = name @ '' '' @ ip\<rparr>"

text \<open>
  A Cloudflare account with the zone \<open>example.com\<close> and one A record \<open>home.example.com\<close>
  whose value is \<open>record_value\<close>; the bodies of the answers are named.
\<close>

definition demo_record_cf :: "string \<Rightarrow> DNSRecord" where
  "demo_record_cf record_value =
     \<lparr>rec_ID = ''r1'', rec_IP = record_value, rec_Name = ''home.example.com'', rec_Proxied = False,
      rec_Type = ''A'', rec_ZoneID = ''z1''\<rparr>"

definition cloudflare_world :: "string \<Rightarrow> unit cloudflare_api" where
  "cloudflare_world record_value =
     \<lparr>cf_NewRequest = (\<lambda>method url. refuse_control_character url),
      client_Do = (\<lambda>w client method url body.
        (if method = ''GET'' \<and> url = ''https://api.cloudflare.com/client/v4/zones''
         then Inr ''zones answer''
         else if method = ''GET'' \<and> url = ''https://api.cloudflare.com/client/v4/zones/z1/dns_records?type=A''
         then Inr ''records answer''
         else Inr ''update answer'', w)),
      Unmarshal_ZoneResponse = (\<lambda>body.
        if body = ''zones answer''
        then Some \<lparr>Zones = [\<lparr>zone_ID = ''z1'', zone_Name = ''example.com''\<rparr>], zr_Success = True\<rparr>
        else None),
      Unmarshal_DNSRecordResponse = (\<lambda>body.
        if body = ''records answer''
        then Some \<lparr>Records = [demo_record_cf record_value], rr_Success = True\<rparr>
        else None),
      Unmarshal_DNSRecordUpdateResponse = (\<lambda>body. None),
      Marshal_DNSRecord = (\<lambda>r. rec_Name r @ ''='' @ rec_IP r),
      INTERVAL = 5\<rparr>"

definition cloudflare_handler0 :: Handler where
  "cloudflare_handler0 = \<lparr>Configuration = settings0, API = ''https://api.cloudflare.com/client/v4''\<rparr>"

section \<open>The IPv4 classifier\<close>

lemma CountString_filter: "CountString s c = length (filter (\<lambda>x. x = c) s)"
  by (induction s) simp_all

text \<open>
  Claim C10. \<open>isIPv4\<close> is true of a string exactly when the string holds fewer than two
  colons; so strings that are no dotted quads at all (no colon, or a single colon) are
  classified as IPv4, and every string with two colons or more is not.
\<close>

theorem isIPv4_iff_fewer_than_two_colons:
  "isIPv4 s = (length (filter (\<lambda>x. x = CHR '':'') s) < 2)
   \<and> isIPv4 ''not an address'' \<and> isIPv4 ''host:80'' \<and> isIPv4 ''''
   \<and> isIPv4 ''192.168.1.10'' \<and> \<not> isIPv4 ''::1'' \<and> \<not> isIPv4 ''fe80::1''"
  by (simp add: isIPv4_def CountString_filter)

section \<open>Traces\<close>

lemma trace_emit [simp]: "trace (emit e s) = trace s @ [e]"
  by (simp add: emit_def)

lemma trace_log_Println [simp]: "trace (log_Println m s) = trace s @ [Log m]"
  by (simp add: log_Println_def)

lemma world_emit [simp]: "world (emit e s) = world s"
  by (simp add: emit_def)

lemma world_log_Println [simp]: "world (log_Println m s) = world s"
  by (simp add: log_Println_def)

section \<open>Text of an IP address\<close>

lemma CountString_append: "CountString (a @ b) c = CountString a c + CountString b c"
  by (simp add: CountString_filter)

lemma CountString_zero_iff: "CountString s c = 0 \<longleftrightarrow> c \<notin> set s"
  by (induction s) auto

lemma digit_char_not_colon: "n < 16 \<Longrightarrow> digit_char n \<noteq> CHR '':''"
proof
  assume n: "n < 16" and eq: "digit_char n = CHR '':''"
  from n have "digit_char n \<in> set ''0123456789abcdef''"
    unfolding digit_char_def by (intro nth_mem) simp
  with eq show False by simp
qed

lemma uitoa_no_colon: "CHR '':'' \<notin> set (uitoa n)"
proof (induction n rule: uitoa.induct)
  case (1 n)
  have d: "digit_char (n mod 10) \<noteq> CHR '':''"
    by (rule digit_char_not_colon) arith
  show ?case
  proof (cases "n < 10")
    case True
    then have "n < 16" by simp
    from digit_char_not_colon [OF this] True show ?thesis
      by (subst uitoa.simps) auto
  next
    case False
    with 1 d show ?thesis by (subst uitoa.simps) auto
  qed
qed

lemma join_no_char:
  "c \<notin> set sep \<Longrightarrow> (\<And>x. x \<in> set xs \<Longrightarrow> c \<notin> set x) \<Longrightarrow> c \<notin> set (join sep xs)"
  by (induction sep xs rule: join.induct) auto

lemma dotted_no_colon: "CountString (dotted p4) (CHR '':'') = 0"
  unfolding CountString_zero_iff dotted_def
  by (rule join_no_char) (auto simp: uitoa_no_colon)

lemma join_colons: "length xs - 1 \<le> CountString (join '':'' xs) (CHR '':'')"
  by (induction "'':''" xs rule: join.induct) (auto simp: CountString_append)

lemma IPv6_text_colons: "length gs = 8 \<Longrightarrow> 2 \<le> CountString (IPv6_text gs) (CHR '':'')"
proof -
  assume len: "length gs = 8"
  have "7 \<le> CountString (join '':'' (map appendHex gs)) (CHR '':'')"
    using join_colons [of "map appendHex gs"] len by simp
  then show ?thesis
    by (simp add: IPv6_text_def Let_def CountString_append)
qed

lemma length_groups: "length (groups p) = 8"
  by (simp add: groups_def)

lemma length_To4: "length (To4 ip) = 4 \<or> To4 ip = []"
  by (auto simp: To4_def IPv4len_def IPv6len_def)

text \<open>
  On an address of four or sixteen bytes the program's test \<open>isIPv4 (ip.String())\<close>
  holds exactly of the IPv4 addresses: their text is a dotted quad, and the text of any
  other sixteen-byte address has seven colons or a double colon.
\<close>

lemma isIPv4_String:
  "length ip = IPv4len \<or> length ip = IPv6len \<Longrightarrow> isIPv4 (IP_String ip) \<longleftrightarrow> To4 ip \<noteq> []"
proof (cases "To4 ip = []")
  case True
  assume "length ip = IPv4len \<or> length ip = IPv6len"
  with True have "IP_String ip = IPv6_text (groups ip)"
    by (auto simp: IP_String_def IPv4len_def IPv6len_def)
  with True show ?thesis
    using IPv6_text_colons [OF length_groups, of ip] by (simp add: isIPv4_def)
next
  case False
  assume "length ip = IPv4len \<or> length ip = IPv6len"
  with False length_To4 [of ip] have "IP_String ip = dotted (To4 ip)"
    by (auto simp: IP_String_def IPv4len_def IPv6len_def)
  with False show ?thesis by (simp add: isIPv4_def dotted_no_colon)
qed

lemma uitoa_numeral [simp]:
  "uitoa (numeral k) = (if (numeral k :: nat) < 10 then [digit_char (numeral k)]
      else uitoa (numeral k div 10) @ [digit_char (numeral k mod 10)])"
  "uitoa 0 = ''0''" "uitoa (Suc 0) = ''1''"
  by (subst uitoa.simps, simp add: digit_char_def)+

section \<open>Predicates on IPv4-mapped addresses\<close>

lemma IPv4_simps [simp]:
  "length (IPv4 a b c d) = 16"
  "To4 (IPv4 a b c d) = [a, b, c, d]"
  "IPv4 a b c d \<noteq> []"
  by (simp_all add: IPv4_def v4InV6Prefix_def To4_def IPv4len_def IPv6len_def isZeros_def)

lemma IPv6_consts:
  "IPv6unspecified = [0, 0, 0, 0, 0, 0, 0, 0, 0, 0, 0, 0, 0, 0, 0, 0]"
  "IPv6loopback = [0, 0, 0, 0, 0, 0, 0, 0, 0, 0, 0, 0, 0, 0, 0, 1]"
  by (simp_all add: IPv6unspecified_def IPv6loopback_def eval_nat_numeral)

lemma IPv4_Equal [simp]:
  "IP_Equal (IPv4 a b c d) (IPv4 a' b' c' d') = (a = a' \<and> b = b' \<and> c = c' \<and> d = d')"
  "IP_Equal (IPv4 a b c d) IPv6unspecified = False"
  "IP_Equal (IPv4 a b c d) IPv6loopback = False"
  by (simp_all add: IP_Equal_def IPv4_def v4InV6Prefix_def IPv6_consts)

lemma IPv4_predicates:
  "IsUnspecified (IPv4 a b c d) = (a = 0 \<and> b = 0 \<and> c = 0 \<and> d = 0)"
  "IsLoopback (IPv4 a b c d) = (a = 127)"
  "IsMulticast (IPv4 a b c d) = (a AND 0xf0 = 0xe0)"
  "IsLinkLocalUnicast (IPv4 a b c d) = (a = 169 \<and> b = 254)"
  "IsLinkLocalMulticast (IPv4 a b c d) = (a = 224 \<and> b = 0 \<and> c = 0)"
  "IsInterfaceLocalMulticast (IPv4 a b c d) = False"
  "IP_String (IPv4 a b c d) = dotted [a, b, c, d]"
  by (simp_all add: IsUnspecified_def IsLoopback_def IsMulticast_def IsLinkLocalUnicast_def
      IsLinkLocalMulticast_def IsInterfaceLocalMulticast_def IP_String_def IPv4zero_def IPv4len_def IPv6len_def)
     (simp_all add: IPv4_def v4InV6Prefix_def)

lemma IPv4_IsGlobalUnicast:
  "IsGlobalUnicast (IPv4 a b c d) =
     (\<not> (a = 255 \<and> b = 255 \<and> c = 255 \<and> d = 255) \<and> \<not> (a = 0 \<and> b = 0 \<and> c = 0 \<and> d = 0) \<and>
      a \<noteq> 127 \<and> a AND 0xf0 \<noteq> 0xe0 \<and> \<not> (a = 169 \<and> b = 254))"
  by (simp add: IsGlobalUnicast_def IPv4_predicates IPv4bcast_def IPv6len_def)

lemma eligible_IPv4:
  "eligible (IPv4 a b c d) =
     (\<not> (a = 255 \<and> b = 255 \<and> c = 255 \<and> d = 255) \<and> \<not> (a = 0 \<and> b = 0 \<and> c = 0 \<and> d = 0) \<and>
      a \<noteq> 127 \<and> a AND 0xf0 \<noteq> 0xe0 \<and> \<not> (a = 169 \<and> b = 254))"
  by (auto simp: eligible_def IPv4_IsGlobalUnicast IPv4_predicates)

lemma eligible_needs_To4: "To4 ip = [] \<Longrightarrow> \<not> eligible ip"
  by (simp add: eligible_def)

section \<open>The interface resolver returns the first eligible address\<close>

lemma addr_IP_simps [simp]:
  "addr_IP (IPNet ip m) = ip" "addr_IP (IPAddr ip z) = ip" "addr_IP OtherAddr = []"
  by (simp_all add: addr_IP_def)

lemma isZeros_first: "length ip = 16 \<Longrightarrow> isZeros (take 10 ip) \<Longrightarrow> ip ! 0 = 0"
proof -
  assume len: "length ip = 16" and z: "isZeros (take 10 ip)"
  have "take 10 ip ! 0 \<in> set (take 10 ip)" using len by (intro nth_mem) simp
  with z have "take 10 ip ! 0 = 0" by (simp add: isZeros_def list_all_iff)
  then show ?thesis by simp
qed

lemma IsInterfaceLocalMulticast_IsMulticast: "IsInterfaceLocalMulticast ip \<Longrightarrow> IsMulticast ip"
  by (auto simp: IsInterfaceLocalMulticast_def IsMulticast_def To4_def IPv4len_def IPv6len_def
      dest: isZeros_first)

lemma scan_addrs_find:
  "scan_addrs addrs = map_option (\<lambda>a. IP_String (addr_IP a)) (find (\<lambda>a. eligible (addr_IP a)) addrs)"
proof (induction addrs)
  case Nil
  show ?case by simp
next
  case (Cons a addrs)
  show ?case
  proof (cases "eligible (addr_IP a)")
    case True
    then have len: "length (addr_IP a) = IPv4len \<or> length (addr_IP a) = IPv6len"
      by (simp add: eligible_def IsGlobalUnicast_def)
    then have "addr_IP a \<noteq> []" by (auto simp: IPv4len_def IPv6len_def)
    moreover have "\<not> IsInterfaceLocalMulticast (addr_IP a)"
      using True IsInterfaceLocalMulticast_IsMulticast by (auto simp: eligible_def)
    moreover have "isIPv4 (IP_String (addr_IP a))"
      using True isIPv4_String [OF len] by (simp add: eligible_def)
    ultimately show ?thesis using True by (simp add: eligible_def Let_def)
  next
    case False
    have "scan_addrs (a # addrs) = scan_addrs addrs"
    proof (cases "IsGlobalUnicast (addr_IP a)")
      case True
      then have len: "length (addr_IP a) = IPv4len \<or> length (addr_IP a) = IPv6len"
        by (simp add: IsGlobalUnicast_def)
      with False True isIPv4_String [OF len] show ?thesis
        by (auto simp: eligible_def Let_def)
    next
      case False
      then show ?thesis by (simp add: Let_def)
    qed
    with False Cons show ?thesis by simp
  qed
qed

text \<open>
  Claim C5, as amended. Once the interface and its address list are obtained,
  \<open>GetIPFromInterface\<close> returns the text of the first address, in the order reported,
  that is eligible: a global unicast address (the guard \<open>IsGlobalUnicast\<close> of the code,
  which also rules out 255.255.255.255) that is not unspecified, multicast, loopback or
  link-local and is an IPv4 address; when no address is eligible it returns the empty
  string with an error. So a returned address is never unspecified, multicast, loopback,
  link-local or non-IPv4, and its text is a dotted quad.
\<close>

theorem GetIPFromInterface_first_eligible:
  assumes "call_InterfaceByName X (IPInterface configuration) s = (Inr ifaces, s1)"
    and "call_Addrs X ifaces s1 = (Inr addrs, s2)"
  shows "GetIPFromInterface X configuration s =
           (case find (\<lambda>a. eligible (addr_IP a)) addrs of
              Some a \<Rightarrow> ((IP_String (addr_IP a), None), s2)
            | None \<Rightarrow>
                (('''', Some (Error (''can't get a vaild address from '' @ IPInterface configuration))), s2))
         \<and> (\<forall>a. find (\<lambda>a. eligible (addr_IP a)) addrs = Some a \<longrightarrow>
               a \<in> set addrs \<and>
               \<not> IsUnspecified (addr_IP a) \<and> \<not> IsMulticast (addr_IP a) \<and> \<not> IsLoopback (addr_IP a) \<and>
               \<not> IsLinkLocalUnicast (addr_IP a) \<and> \<not> IsLinkLocalMulticast (addr_IP a) \<and>
               To4 (addr_IP a) \<noteq> [] \<and> IP_String (addr_IP a) = dotted (To4 (addr_IP a)))"
proof (intro conjI allI impI)
  show "GetIPFromInterface X configuration s =
           (case find (\<lambda>a. eligible (addr_IP a)) addrs of
              Some a \<Rightarrow> ((IP_String (addr_IP a), None), s2)
            | None \<Rightarrow>
                (('''', Some (Error (''can't get a vaild address from '' @ IPInterface configuration))), s2))"
    using assms by (simp add: GetIPFromInterface_def scan_addrs_find split: option.splits)
next
  fix a
  assume "find (\<lambda>a. eligible (addr_IP a)) addrs = Some a"
  then have el: "eligible (addr_IP a)" and mem: "a \<in> set addrs"
    by (auto simp: find_Some_iff)
  from mem show "a \<in> set addrs" .
  from el show "\<not> IsUnspecified (addr_IP a)" "\<not> IsMulticast (addr_IP a)" "\<not> IsLoopback (addr_IP a)"
    "\<not> IsLinkLocalUnicast (addr_IP a)" "\<not> IsLinkLocalMulticast (addr_IP a)" "To4 (addr_IP a) \<noteq> []"
    by (simp_all add: eligible_def)
  from el have "length (addr_IP a) = IPv4len \<or> length (addr_IP a) = IPv6len" "To4 (addr_IP a) \<noteq> []"
    by (simp_all add: eligible_def IsGlobalUnicast_def)
  with length_To4 [of "addr_IP a"] show "IP_String (addr_IP a) = dotted (To4 (addr_IP a))"
    by (auto simp: IP_String_def IPv4len_def IPv6len_def)
qed

lemma demo_addrs_first_eligible:
  "find (\<lambda>a. eligible (addr_IP a)) demo_addrs = Some (IPNet (IPv4 192 168 1 10) [255, 255, 255, 0])"
  by (simp add: demo_addrs_def eligible_IPv4 eligible_needs_To4 To4_def IPv4len_def IPv6len_def
      isZeros_def)

theorem GetIPFromInterface_first_eligible_witness:
  "GetIPFromInterface (fixed_world (Inr demo_addrs) (Inl (Error ''timeout'')) no_post no_json None) settings0 s0 =
     ((''192.168.1.10'', None), \<lparr>world = (), trace = [EvInterfaceByName ''eth0'', EvAddrs ''eth0'']\<rparr>)"
proof -
  let ?X = "fixed_world (Inr demo_addrs) (Inl (Error ''timeout'')) no_post no_json None"
  let ?s1 = "\<lparr>world = (), trace = [EvInterfaceByName ''eth0'']\<rparr>"
  let ?s2 = "\<lparr>world = (), trace = [EvInterfaceByName ''eth0'', EvAddrs ''eth0'']\<rparr>"
  have h1: "call_InterfaceByName ?X (IPInterface settings0) s0 = (Inr \<lparr>Index = 2, Name = ''eth0''\<rparr>, ?s1)"
    by (simp add: call_InterfaceByName_def fixed_world_def settings0_def s0_def emit_def)
  have h2: "call_Addrs ?X \<lparr>Index = 2, Name = ''eth0''\<rparr> ?s1 = (Inr demo_addrs, ?s2)"
    by (simp add: call_Addrs_def fixed_world_def emit_def)
  show ?thesis
    using GetIPFromInterface_first_eligible [OF h1 h2, THEN conjunct1]
    by (simp add: demo_addrs_first_eligible IPv4_predicates dotted_def digit_char_def)
qed

text \<open>
  Claim C5 as stated fails: 255.255.255.255 passes every filter the claim lists (it is
  not unspecified, multicast, loopback or link-local, and it is an IPv4 address), it is
  reported first, and the function returns the second address.
\<close>

theorem GetIPFromInterface_skips_listed_filter_passing_broadcast:
  "passes_listed_filters (addr_IP (hd bcast_addrs))
   \<and> IP_String (addr_IP (hd bcast_addrs)) = ''255.255.255.255''
   \<and> fst (GetIPFromInterface (fixed_world (Inr bcast_addrs) (Inl (Error ''timeout'')) no_post no_json None)
            settings0 s0) = (''192.168.1.10'', None)"
  by (simp add: bcast_addrs_def passes_listed_filters_def IPv4_predicates dotted_def digit_char_def
      GetIPFromInterface_def call_InterfaceByName_def call_Addrs_def fixed_world_def settings0_def s0_def
      scan_addrs_find eligible_IPv4)

section \<open>GetCurrentIP\<close>

text \<open>
  Claim C3 (violated by the code). \<open>GetCurrentIP\<close> never returns an error: the error it
  returns on its last line is the outer variable \<open>err\<close>, which stays nil. With neither
  source configured, and with both sources configured and failing, it returns the empty
  string and a nil error.
\<close>

theorem GetCurrentIP_error_is_always_nil:
  "snd (fst (GetCurrentIP X configuration s)) = None
   \<and> fst (GetCurrentIP (fixed_world (Inl (Error ''no addresses'')) (Inl (Error ''timeout'')) no_post no_json None)
            (settings0\<lparr>IPUrl := '''', IPInterface := ''''\<rparr>) s0) = ('''', None)
   \<and> fst (GetCurrentIP (fixed_world (Inl (Error ''no addresses'')) (Inl (Error ''timeout'')) no_post no_json None)
            settings0 s0) = ('''', None)"
proof (intro conjI)
  show "snd (fst (GetCurrentIP X configuration s)) = None"
    by (simp add: GetCurrentIP_def Let_def split: prod.splits option.splits if_splits)
  show "fst (GetCurrentIP (fixed_world (Inl (Error ''no addresses'')) (Inl (Error ''timeout'')) no_post no_json None)
            (settings0\<lparr>IPUrl := '''', IPInterface := ''''\<rparr>) s0) = ('''', None)"
    by (simp add: GetCurrentIP_def settings0_def)
  show "fst (GetCurrentIP (fixed_world (Inl (Error ''no addresses'')) (Inl (Error ''timeout'')) no_post no_json None)
            settings0 s0) = ('''', None)"
    by (simp add: GetCurrentIP_def GetIPOnline_def GetIPFromInterface_def call_Get_def
        call_InterfaceByName_def call_Addrs_def fixed_world_def settings0_def s0_def)
qed

text \<open>
  Claim C6. With both sources configured, \<open>GetCurrentIP\<close> runs the online source first,
  on the state it was called in. If that succeeds, its answer is returned and the
  interface is not consulted. If it fails, the failure is logged and the interface
  source runs next; when that succeeds, its address is returned with a nil error.
\<close>

theorem GetCurrentIP_online_first_then_interface:
  assumes "IPUrl configuration \<noteq> ''''" and "IPInterface configuration \<noteq> ''''"
  shows "(GetIPOnline X configuration s = ((ip, None), s1) \<longrightarrow>
            GetCurrentIP X configuration s = ((ip, None), s1))
         \<and> (GetIPOnline X configuration s = ((ip0, Some e), s1) \<and>
            GetIPFromInterface X configuration
              (log_Println ''get ip online failed. Fallback to get ip from interface if possible.'' s1) =
              ((ip, None), s2) \<longrightarrow>
            GetCurrentIP X configuration s = ((ip, None), s2))"
  using assms by (simp add: GetCurrentIP_def)

theorem GetCurrentIP_online_first_then_interface_witness:
  "GetCurrentIP (fixed_world (Inr demo_addrs) (Inl (Error ''timeout'')) no_post no_json None) settings0 s0 =
     ((''192.168.1.10'', None),
      \<lparr>world = (),
       trace = [EvGet ''http://members.3322.org/dyndns/getip'',
                Log ''Cannot get IP...'',
                Log ''get ip online failed. Fallback to get ip from interface if possible.'',
                EvInterfaceByName ''eth0'', EvAddrs ''eth0'']\<rparr>)"
proof -
  let ?X = "fixed_world (Inr demo_addrs) (Inl (Error ''timeout'')) no_post no_json None"
  let ?s1 = "\<lparr>world = (), trace = [EvGet ''http://members.3322.org/dyndns/getip'', Log ''Cannot get IP...'']\<rparr>"
  let ?s2 = "\<lparr>world = (),
       trace = [EvGet ''http://members.3322.org/dyndns/getip'',
                Log ''Cannot get IP...'',
                Log ''get ip online failed. Fallback to get ip from interface if possible.'',
                EvInterfaceByName ''eth0'', EvAddrs ''eth0'']\<rparr>"
  have u: "IPUrl settings0 \<noteq> ''''" and i: "IPInterface settings0 \<noteq> ''''"
    by (simp_all add: settings0_def)
  have on: "GetIPOnline ?X settings0 s0 = (('''', Some (Error ''timeout'')), ?s1)"
    by (simp add: GetIPOnline_def call_Get_def fixed_world_def settings0_def s0_def emit_def log_Println_def)
  have ifc: "GetIPFromInterface ?X settings0
      (log_Println ''get ip online failed. Fallback to get ip from interface if possible.'' ?s1) =
      ((''192.168.1.10'', None), ?s2)"
    by (simp add: GetIPFromInterface_def call_InterfaceByName_def call_Addrs_def fixed_world_def
        settings0_def emit_def log_Println_def scan_addrs_find demo_addrs_first_eligible
        IPv4_predicates dotted_def digit_char_def)
  show ?thesis
    by (rule GetCurrentIP_online_first_then_interface
          [OF u i, THEN conjunct2, rule_format, OF conjI [OF on ifc]])
qed

section \<open>What a call adds to the trace\<close>

lemma provider_calls_simps [simp]:
  "provider_calls [] = []"
  "provider_calls (xs @ ys) = provider_calls xs @ provider_calls ys"
  "provider_calls (e # xs) = (if is_provider_call e then e # provider_calls xs else provider_calls xs)"
  by (simp_all add: provider_calls_def)

lemma mails_simps [simp]:
  "mails [] = []"
  "mails (xs @ ys) = mails xs @ mails ys"
  "mails (e # xs) = (if is_mail e then e # mails xs else mails xs)"
  by (simp_all add: mails_def)

lemma GetHttpClient_trace:
  "GetHttpClient X c s = (r, s') \<Longrightarrow>
     provider_calls (trace s') = provider_calls (trace s) \<and> mails (trace s') = mails (trace s)"
  by (auto simp: GetHttpClient_def Let_def split: if_splits option.splits)

lemma PostData_trace:
  "PostData X h url content s = (r, s') \<Longrightarrow> mails (trace s') = mails (trace s)"
  by (auto simp: PostData_def call_Post_def Let_def split: prod.splits option.splits sum.splits
      dest!: GetHttpClient_trace)

lemma PostData_calls:
  "PostData X h url content s = (Inr (resp, None), s') \<Longrightarrow>
     provider_calls (trace s') = provider_calls (trace s) @ [EvPost (API h @ url) (GenerateHeader h content)]"
  by (auto simp: PostData_def call_Post_def Let_def split: prod.splits option.splits sum.splits
      dest!: GetHttpClient_trace)

text \<open>
  The request helper and the address of the API: a request that was answered had been
  built; when the request can be built, the helper returns; when the client is there and
  the request cannot be built, the helper panics, and nothing has been sent.
\<close>

lemma PostData_built:
  "PostData X h url content s = (Inr (resp, None), s') \<Longrightarrow> http_NewRequest X (API h) = None"
  by (auto simp: PostData_def Let_def split: prod.splits option.splits sum.splits)

lemma PostData_returns:
  "http_NewRequest X (API h) = None \<Longrightarrow> PostData X h url content s \<noteq> (Inl p, s')"
  by (auto simp: PostData_def Let_def split: prod.splits option.splits sum.splits)

lemma PostData_panics:
  "GetHttpClient X (Configuration h) s = (Some client, sa) \<Longrightarrow> http_NewRequest X (API h) = Some e \<Longrightarrow>
     PostData X h url content s =
       (Inl (Panic ''runtime error: invalid memory address or nil pointer dereference''), sa)"
  by (simp add: PostData_def Let_def)

lemma GetIPFromInterface_trace:
  "GetIPFromInterface X c s = (r, s') \<Longrightarrow>
     provider_calls (trace s') = provider_calls (trace s) \<and> mails (trace s') = mails (trace s)"
  by (auto simp: GetIPFromInterface_def call_InterfaceByName_def call_Addrs_def
      split: prod.splits sum.splits option.splits)

lemma GetIPOnline_trace:
  "GetIPOnline X c s = (r, s') \<Longrightarrow>
     provider_calls (trace s') = provider_calls (trace s) \<and> mails (trace s') = mails (trace s)"
  by (auto simp: GetIPOnline_def call_Get_def Let_def
      split: prod.splits sum.splits option.splits if_splits)

lemma GetCurrentIP_trace:
  "GetCurrentIP X c s = (r, s') \<Longrightarrow>
     provider_calls (trace s') = provider_calls (trace s) \<and> mails (trace s') = mails (trace s)"
  by (auto simp: GetCurrentIP_def Let_def
      split: prod.splits option.splits if_splits
      dest!: GetIPOnline_trace GetIPFromInterface_trace)

lemma GetCurrentIP_nil_error: "GetCurrentIP X c s = ((ip, err), s') \<Longrightarrow> err = None"
  by (auto simp: GetCurrentIP_def Let_def split: prod.splits option.splits if_splits)

lemma GetDomain_trace:
  assumes "GetDomain X h name s = (r, s')"
  shows "mails (trace s') = mails (trace s)"
    and "r = Inr domainID \<Longrightarrow> domainID \<noteq> - 1 \<Longrightarrow>
           provider_calls (trace s') = provider_calls (trace s) @ [Domain_List_call h]"
  using assms
  by (auto simp: GetDomain_def Domain_List_call_def Let_def split: prod.splits option.splits sum.splits if_splits
      dest: PostData_trace PostData_calls)

text \<open>The definitions unfolded to run the program in a concrete world.\<close>

lemmas run_defs =
  DomainLoop_cycle_def GetDomain_def GetSubDomain_def UpdateIP_def PostData_def GetHttpClient_def
  GenerateHeader_def Values_Get_def call_Post_def call_Get_def call_DialAndSend_def
  GetCurrentIP_def GetIPOnline_def SendNotify_def subdomain_step_def
  Get_def MustString_def Array_def Int64_def ParseInt_def is_digit_def dec_value_def digit_val_def
  FormatInt_def digit_char_def
  Trim_def TrimRight_def newline_def emit_def log_Println_def
  dnspod_world_def fixed_world_def dnspod_post_def dnspod_json_def domains_json_def records_json_def
  refuse_control_character_def
  status_ok_def handler0_def domain0_def settings0_def s0_def record_line_default_def
  domain_list_post_def record_list_post_def record_modify_post_def notification_def Let_def

lemma demo_events [simp]:
  "is_provider_call domain_list_post" "is_provider_call (record_list_post i)"
  "is_provider_call (record_modify_post i ip)" "\<not> is_provider_call (notification n ip)"
  "\<not> is_mail domain_list_post" "\<not> is_mail (record_list_post i)"
  "\<not> is_mail (record_modify_post i ip)" "is_mail (notification n ip)"
  "Log m \<noteq> domain_list_post" "Log m \<noteq> record_list_post i"
  "Log m \<noteq> record_modify_post i ip" "Log m \<noteq> notification n ip"
  by (simp_all add: domain_list_post_def record_list_post_def record_modify_post_def notification_def)

section \<open>A cycle of the DNSPod loop with an unchanged IP\<close>

text \<open>
  Claim C1, as amended. In a cycle of the DNSPod loop whose domain lookup does not
  return -1 and in which the resolved IP equals the cached \<open>lastIP\<close>, the cycle ends
  normally with \<open>lastIP\<close> still cached, sends no notification, and issues exactly one
  provider API call: the domain list lookup that \<open>GetDomain\<close> makes at the start of the
  cycle, before the comparison. No record lookup and no update is issued.
\<close>

theorem unchanged_cycle_only_lists_domains:
  assumes "GetDomain X h (DomainName d) (log_Println ''Checking IP for domain %s'' s) = (Inr domainID, s1)"
    and "domainID \<noteq> - 1"
    and "GetCurrentIP X (Configuration h) s1 = ((lastIP, err), s2)"
  shows "fst (DomainLoop_cycle X h d lastIP s) = Inr lastIP
         \<and> provider_calls (trace (snd (DomainLoop_cycle X h d lastIP s))) =
             provider_calls (trace s) @ [Domain_List_call h]
         \<and> mails (trace (snd (DomainLoop_cycle X h d lastIP s))) = mails (trace s)"
proof -
  from assms(3) have err: "err = None" by (rule GetCurrentIP_nil_error)
  from GetDomain_trace [OF assms(1)] assms(2)
  have d: "provider_calls (trace s1) = provider_calls (trace s) @ [Domain_List_call h]"
    "mails (trace s1) = mails (trace s)" by simp_all
  from GetCurrentIP_trace [OF assms(3)]
  have c: "provider_calls (trace s2) = provider_calls (trace s1)" "mails (trace s2) = mails (trace s1)"
    by simp_all
  show ?thesis
    using assms err d c by (simp add: DomainLoop_cycle_def)
qed

lemma demo_unchanged_cycle:
  "DomainLoop_cycle (dnspod_world ''1.2.3.4'' ''7'' ''1.2.3.4'' (Inr ''Record.Modify answer'') None)
     handler0 domain0 ''1.2.3.4'' s0 =
   (Inr ''1.2.3.4'',
    \<lparr>world = (),
     trace =
       [Log ''Checking IP for domain %s'',
        domain_list_post,
        EvGet ''http://members.3322.org/dyndns/getip'',
        Log ''currentIP is:'',
        Log ''IP is the same as cached one. Skip update.'',
        Log ''Going to sleep, will start next checking in %d seconds...'',
        EvSleep 300]\<rparr>)"
  by (simp add: run_defs)

theorem unchanged_cycle_only_lists_domains_witness:
  "fst (DomainLoop_cycle (dnspod_world ''1.2.3.4'' ''7'' ''1.2.3.4'' (Inr ''Record.Modify answer'') None)
          handler0 domain0 ''1.2.3.4'' s0) = Inr ''1.2.3.4''
   \<and> provider_calls (trace (snd (DomainLoop_cycle
          (dnspod_world ''1.2.3.4'' ''7'' ''1.2.3.4'' (Inr ''Record.Modify answer'') None)
          handler0 domain0 ''1.2.3.4'' s0))) = provider_calls (trace s0) @ [Domain_List_call handler0]
   \<and> mails (trace (snd (DomainLoop_cycle
          (dnspod_world ''1.2.3.4'' ''7'' ''1.2.3.4'' (Inr ''Record.Modify answer'') None)
          handler0 domain0 ''1.2.3.4'' s0))) = mails (trace s0)"
proof -
  let ?X = "dnspod_world ''1.2.3.4'' ''7'' ''1.2.3.4'' (Inr ''Record.Modify answer'') None"
  let ?s1 = "\<lparr>world = (),
     trace = [Log ''Checking IP for domain %s'',
              domain_list_post]\<rparr>"
  have g: "GetDomain ?X handler0 (DomainName domain0) (log_Println ''Checking IP for domain %s'' s0) =
             (Inr 7, ?s1)"
    by (simp add: run_defs)
  have n: "(7::int) \<noteq> - 1" by simp
  have c: "GetCurrentIP ?X (Configuration handler0) ?s1 =
             ((''1.2.3.4'', None), emit (EvGet ''http://members.3322.org/dyndns/getip'') ?s1)"
    by (simp add: run_defs)
  show ?thesis
    by (rule unchanged_cycle_only_lists_domains [OF g n c])
qed

text \<open>
  Claim C1 as stated fails: in this cycle the resolved IP equals the cached one and the
  update is skipped, yet one provider API call has been issued.
\<close>

theorem unchanged_cycle_still_calls_provider:
  "Log ''IP is the same as cached one. Skip update.''
     \<in> set (trace (snd (DomainLoop_cycle
          (dnspod_world ''1.2.3.4'' ''7'' ''1.2.3.4'' (Inr ''Record.Modify answer'') None)
          handler0 domain0 ''1.2.3.4'' s0)))
   \<and> provider_calls (trace (snd (DomainLoop_cycle
          (dnspod_world ''1.2.3.4'' ''7'' ''1.2.3.4'' (Inr ''Record.Modify answer'') None)
          handler0 domain0 ''1.2.3.4'' s0))) =
       [domain_list_post]"
  by (simp add: demo_unchanged_cycle)

section \<open>The Cloudflare loop has no cached IP\<close>

text \<open>
  The provider API calls of a cycle of the Cloudflare loop that does not panic: always
  the zone lookup; when the zone is found, the record lookup, and one update request for
  each tracked record whose value is not the current IP. The cycle does not look at any
  earlier cycle (the source marks the check against a cached IP as TODO).
\<close>

lemma newRequest_trace:
  "newRequest X C h method url s = (r, s') \<Longrightarrow> provider_calls (trace s') = provider_calls (trace s)"
  by (auto simp: newRequest_def Let_def split: if_splits option.splits prod.splits)

lemma getZone_trace:
  "getZone X C h name s = (Inr zoneID, s') \<Longrightarrow>
     provider_calls (trace s') = provider_calls (trace s) @ [EvRequest ''GET'' (API h @ ''/zones'') '''']"
  by (auto simp: getZone_def call_Do_def split: prod.splits sum.splits option.splits if_splits
      dest!: newRequest_trace)

lemma getDNSRecords_trace:
  "getDNSRecords X C h zoneID s = (Inr records, s') \<Longrightarrow>
     provider_calls (trace s') =
       provider_calls (trace s) @ [EvRequest ''GET'' (API h @ ''/zones/'' @ zoneID @ ''/dns_records?type=A'') '''']"
  by (auto simp: getDNSRecords_def call_Do_def split: prod.splits sum.splits option.splits if_splits
      dest!: newRequest_trace)

lemma updateRecord_trace:
  "updateRecord X C h r ip s = (None, s') \<Longrightarrow>
   provider_calls (trace s') =
     provider_calls (trace s) @
       [EvRequest ''PUT'' (API h @ ''/zones/'' @ rec_ZoneID r @ ''/dns_records/'' @ rec_ID r)
          (Marshal_DNSRecord C (SetIP r ip))]"
  by (auto simp: updateRecord_def call_Do_def Let_def SetIP_def split: prod.splits sum.splits option.splits if_splits
      dest!: newRequest_trace)

lemma update_records_trace:
  "update_records X C h d currentIP records s = (None, s') \<Longrightarrow>
   provider_calls (trace s') =
     provider_calls (trace s) @
       map (\<lambda>r. EvRequest ''PUT'' (API h @ ''/zones/'' @ rec_ZoneID r @ ''/dns_records/'' @ rec_ID r)
                  (Marshal_DNSRecord C (SetIP r currentIP)))
         (filter (\<lambda>r. recordTracked d r \<and> rec_IP r \<noteq> currentIP) records)"
proof (induction records arbitrary: s)
  case Nil
  then show ?case by simp
next
  case (Cons r records)
  show ?case
  proof (cases "recordTracked d r \<and> rec_IP r \<noteq> currentIP")
    case False
    with Cons.prems Cons.IH show ?thesis by (auto split: if_splits)
  next
    case True
    with Cons.prems obtain sa where
      u: "updateRecord X C h r currentIP
            (log_Println ''IP mismatch: Current(%+v) vs Cloudflare(%+v)'' s) = (None, sa)"
      and rest: "update_records X C h d currentIP records sa = (None, s')"
      by (auto split: prod.splits option.splits)
    from updateRecord_trace [OF u] Cons.IH [OF rest] True show ?thesis by simp
  qed
qed

lemma Cloudflare_cycle_calls:
  assumes "Cloudflare_DomainLoop_cycle X C h d s = (None, s')"
    and "GetCurrentIP X (Configuration h) s = ((currentIP, err), sa)"
    and "getZone X C h (DomainName d)
           (log_Println ''Checking IP for domain'' (log_Println ''Current IP is:'' sa)) = (Inr zoneID, sb)"
  shows "provider_calls (trace s') =
     provider_calls (trace s) @
       EvRequest ''GET'' (API h @ ''/zones'') '''' #
       (if zoneID = '''' then []
        else EvRequest ''GET'' (API h @ ''/zones/'' @ zoneID @ ''/dns_records?type=A'') '''' #
             (case fst (getDNSRecords X C h zoneID sb) of
                Inl p \<Rightarrow> []
              | Inr records \<Rightarrow>
                  map (\<lambda>r. EvRequest ''PUT'' (API h @ ''/zones/'' @ rec_ZoneID r @ ''/dns_records/'' @ rec_ID r)
                             (Marshal_DNSRecord C (SetIP r currentIP)))
                    (filter (\<lambda>r. recordTracked d r \<and> rec_IP r \<noteq> currentIP) records)))"
proof -
  from assms(2) have e: "err = None" by (rule GetCurrentIP_nil_error)
  from GetCurrentIP_trace [OF assms(2)] have p1: "provider_calls (trace sa) = provider_calls (trace s)" by simp
  from getZone_trace [OF assms(3)] p1
  have p3: "provider_calls (trace sb) = provider_calls (trace s) @ [EvRequest ''GET'' (API h @ ''/zones'') '''']"
    by simp
  show ?thesis
  proof (cases "zoneID = ''''")
    case True
    with assms e p3 show ?thesis
      by (auto simp: Cloudflare_DomainLoop_cycle_def Let_def)
  next
    case False
    with assms e obtain records sc where
      r: "getDNSRecords X C h zoneID sb = (Inr records, sc)"
      and u: "update_records X C h d currentIP records sc = (None, snd (update_records X C h d currentIP records sc))"
      and s': "s' = emit (EvSleep (60 * INTERVAL C))
                     (log_Println ''Going to sleep, will start next checking in %d minutes...''
                        (snd (update_records X C h d currentIP records sc)))"
      by (auto simp: Cloudflare_DomainLoop_cycle_def Let_def split: prod.splits sum.splits option.splits)
    from getDNSRecords_trace [OF r] p3 update_records_trace [OF u] False r s'
    show ?thesis by simp
  qed
qed

text \<open>
  Two cycles in a row in a world where nothing changes (the resolved IP and the record
  value are 1.2.3.4 throughout): neither cycle panics, and the second repeats both
  lookups of the first.
\<close>

lemma Cloudflare_unchanged_cycles_repeat_lookups:
  "fst (Cloudflare_DomainLoop_cycle (dnspod_world ''1.2.3.4'' ''7'' ''1.2.3.4'' (Inr ''x'') None)
          (cloudflare_world ''1.2.3.4'') cloudflare_handler0 domain0 s0) = None
   \<and> fst (Cloudflare_DomainLoop_cycle (dnspod_world ''1.2.3.4'' ''7'' ''1.2.3.4'' (Inr ''x'') None)
            (cloudflare_world ''1.2.3.4'') cloudflare_handler0 domain0
            (snd (Cloudflare_DomainLoop_cycle (dnspod_world ''1.2.3.4'' ''7'' ''1.2.3.4'' (Inr ''x'') None)
                    (cloudflare_world ''1.2.3.4'') cloudflare_handler0 domain0 s0))) = None
   \<and> provider_calls (trace (snd
       (Cloudflare_DomainLoop_cycle (dnspod_world ''1.2.3.4'' ''7'' ''1.2.3.4'' (Inr ''x'') None)
          (cloudflare_world ''1.2.3.4'') cloudflare_handler0 domain0
          (snd (Cloudflare_DomainLoop_cycle (dnspod_world ''1.2.3.4'' ''7'' ''1.2.3.4'' (Inr ''x'') None)
                  (cloudflare_world ''1.2.3.4'') cloudflare_handler0 domain0 s0))))) =
   [EvRequest ''GET'' ''https://api.cloudflare.com/client/v4/zones'' '''',
    EvRequest ''GET'' ''https://api.cloudflare.com/client/v4/zones/z1/dns_records?type=A'' '''',
    EvRequest ''GET'' ''https://api.cloudflare.com/client/v4/zones'' '''',
    EvRequest ''GET'' ''https://api.cloudflare.com/client/v4/zones/z1/dns_records?type=A'' '''']"
  by (simp add: Cloudflare_DomainLoop_cycle_def getZone_def getDNSRecords_def newRequest_def call_Do_def
        cloudflare_world_def cloudflare_handler0_def demo_record_cf_def recordTracked_def run_defs)

section \<open>The cached IP\<close>

text \<open>
  Claim C2, as amended. A cycle of the DNSPod loop that runs to its end leaves \<open>lastIP\<close>
  as it was when the domain lookup returned -1, and otherwise caches the IP that
  \<open>GetCurrentIP\<close> resolved in this cycle: the assignment precedes the processing of the
  subdomains and does not depend on what the record lookups and updates return.
\<close>

theorem cycle_caches_resolved_IP:
  assumes "DomainLoop_cycle X h d lastIP s = (Inr lastIP', s')"
    and "GetDomain X h (DomainName d) (log_Println ''Checking IP for domain %s'' s) = (r, s1)"
  shows "lastIP' = (if r = Inr (- 1) then lastIP else fst (fst (GetCurrentIP X (Configuration h) s1)))"
  using assms
  by (auto simp: DomainLoop_cycle_def split: sum.splits prod.splits option.splits if_splits
      dest: GetCurrentIP_nil_error)

lemma demo_failed_update_cycle:
  "DomainLoop_cycle (dnspod_world ''1.2.3.5'' ''7'' ''1.2.3.4'' (Inl (Error ''timeout'')) None)
     handler0 domain0 ''1.2.3.4'' s0 =
   (Inr ''1.2.3.5'',
    \<lparr>world = (),
     trace =
       [Log ''Checking IP for domain %s'',
        domain_list_post,
        EvGet ''http://members.3322.org/dyndns/getip'',
        Log ''currentIP is:'', Log ''debug:'',
        record_list_post ''7'',
        Log ''%s.%s Start to update record IP...'',
        record_modify_post ''7'' ''1.2.3.5'',
        Log ''Post failed...'', Log [],
        Log ''Failed to update record to new IP!'', Log [],
        Log ''Sending notification to:'', Log ''currentIP:'', Log ''domain:'',
        notification ''home.example.com'' ''1.2.3.5'',
        Log ''Going to sleep, will start next checking in %d seconds...'',
        EvSleep 300]\<rparr>)"
  by (simp add: run_defs)

theorem cycle_caches_resolved_IP_witness:
  "''1.2.3.5'' =
     (if (Inr 7 :: fault + int) = Inr (- 1) then ''1.2.3.4''
      else fst (fst (GetCurrentIP (dnspod_world ''1.2.3.5'' ''7'' ''1.2.3.4'' (Inl (Error ''timeout'')) None)
             (Configuration handler0)
             \<lparr>world = (),
              trace = [Log ''Checking IP for domain %s'',
                       domain_list_post]\<rparr>)))"
proof -
  let ?X = "dnspod_world ''1.2.3.5'' ''7'' ''1.2.3.4'' (Inl (Error ''timeout'')) None"
  have g: "GetDomain ?X handler0 (DomainName domain0) (log_Println ''Checking IP for domain %s'' s0) =
             (Inr 7,
              \<lparr>world = (),
               trace = [Log ''Checking IP for domain %s'',
                        domain_list_post]\<rparr>)"
    by (simp add: run_defs)
  show ?thesis
    by (rule cycle_caches_resolved_IP [OF demo_failed_update_cycle g])
qed

text \<open>
  Claim C2 as stated fails: the update request of this cycle fails (the record keeps
  its old value), and the cycle still replaces the cached 1.2.3.4 by 1.2.3.5.
\<close>

theorem lastIP_overwritten_although_update_failed:
  "fst (DomainLoop_cycle (dnspod_world ''1.2.3.5'' ''7'' ''1.2.3.4'' (Inl (Error ''timeout'')) None)
          handler0 domain0 ''1.2.3.4'' s0) = Inr ''1.2.3.5''
   \<and> Log ''Failed to update record to new IP!''
        \<in> set (trace (snd (DomainLoop_cycle
             (dnspod_world ''1.2.3.5'' ''7'' ''1.2.3.4'' (Inl (Error ''timeout'')) None)
             handler0 domain0 ''1.2.3.4'' s0)))
   \<and> Log ''New IP updated!''
        \<notin> set (trace (snd (DomainLoop_cycle
             (dnspod_world ''1.2.3.5'' ''7'' ''1.2.3.4'' (Inl (Error ''timeout'')) None)
             handler0 domain0 ''1.2.3.4'' s0)))"
  by (simp add: demo_failed_update_cycle)

section \<open>More about traces and trimming\<close>

lemma dropWhile_replicate_newline:
  "dropWhile (\<lambda>c. c = CHR 0x0A) (replicate n (CHR 0x0A) @ ys) = dropWhile (\<lambda>c. c = CHR 0x0A) ys"
  by (induction n) simp_all

lemma TrimRight_newlines: "TrimRight (x @ replicate n (CHR 0x0A)) newline = TrimRight x newline"
  by (simp add: TrimRight_def newline_def dropWhile_replicate_newline)

lemma SendNotify_trace:
  "SendNotify X c dname ip s = (r, s') \<Longrightarrow>
     provider_calls (trace s') = provider_calls (trace s) \<and>
     mails (trace s') = mails (trace s) @
       [EvDialAndSend \<lparr>From = SMTPUsername (Notify c), To = SendTo (Notify c),
          Subject = ''GoDNS Notification'', Body = buildTemplate X ip dname\<rparr>]"
  by (auto simp: SendNotify_def call_DialAndSend_def Let_def split: prod.splits option.splits)

lemma UpdateIP_trace:
  "UpdateIP X h domainID subDomainID sub ip s = (r, s') \<Longrightarrow> mails (trace s') = mails (trace s)"
  by (auto simp: UpdateIP_def Let_def split: prod.splits option.splits sum.splits if_splits
      dest: PostData_trace)

lemma UpdateIP_returns:
  "http_NewRequest X (API h) = None \<Longrightarrow> fst (UpdateIP X h domainID subDomainID sub ip s) = None"
  by (auto simp: UpdateIP_def Let_def PostData_returns split: prod.splits option.splits sum.splits if_splits)

lemma GetSubDomain_trace:
  "GetSubDomain X h domainID sub s = (r, s') \<Longrightarrow> mails (trace s') = mails (trace s)"
  by (auto simp: GetSubDomain_def Let_def split: prod.splits option.splits sum.splits if_splits
      dest: PostData_trace)

text \<open>A record that was found was found by a request, which had been built.\<close>

lemma GetSubDomain_built:
  "GetSubDomain X h domainID sub s = (Inr (subDomainID, ip), s') \<Longrightarrow> subDomainID \<noteq> '''' \<Longrightarrow>
     http_NewRequest X (API h) = None"
  by (auto simp: GetSubDomain_def Let_def split: prod.splits option.splits sum.splits if_splits
      dest: PostData_built)

lemma cycle_with_changed_IP:
  assumes "GetDomain X h (DomainName d) (log_Println ''Checking IP for domain %s'' s) = (Inr domainID, sa)"
    and "domainID \<noteq> - 1"
    and "GetCurrentIP X (Configuration h) sa = ((currentIP, err), sb)"
    and "currentIP \<noteq> lastIP"
  shows "DomainLoop_cycle X h d lastIP s =
         (case subdomains_loop X h d domainID currentIP (SubDomains d) (log_Println ''currentIP is:'' sb) of
            (Some p, sc) \<Rightarrow> (Inl p, sc)
          | (None, sc) \<Rightarrow>
              (Inr currentIP,
               emit (EvSleep (Interval (Configuration h)))
                 (log_Println ''Going to sleep, will start next checking in %d seconds...'' sc)))"
proof -
  from assms(3) have "err = None" by (rule GetCurrentIP_nil_error)
  with assms show ?thesis
    by (simp add: DomainLoop_cycle_def split: prod.splits option.splits)
qed

section \<open>The two comparisons of the change detector\<close>

text \<open>
  Claim C4, as amended. The comparison with the value of the remote record trims
  trailing newline characters from both operands: when the record value and the current
  IP differ only in trailing newlines, the subdomain is left alone (no update request, no
  notification, one log line). The comparison with the cached \<open>lastIP\<close> is plain string
  equality, with no trimming: whenever the resolved IP is not the same string as the
  cached one, the cycle goes on to the subdomains and caches the resolved IP.
\<close>

theorem record_comparison_trims_newlines_cached_comparison_is_exact:
  "(GetSubDomain X h domainID sub s = (Inr (subDomainID, ip @ replicate m (CHR 0x0A)), s1) \<and>
      subDomainID \<noteq> '''' \<and> ip @ replicate m (CHR 0x0A) \<noteq> '''' \<longrightarrow>
    subdomain_step X h d domainID (ip @ replicate n (CHR 0x0A)) sub s =
      (None, log_Println ''%s.%s Current IP is same as domain IP, no need to update...'' s1))
   \<and> (GetDomain X h (DomainName d) (log_Println ''Checking IP for domain %s'' s) = (Inr domainID, s2) \<and>
       domainID \<noteq> - 1 \<and> GetCurrentIP X (Configuration h) s2 = ((currentIP, err), s3) \<and>
       currentIP \<noteq> lastIP \<longrightarrow>
       DomainLoop_cycle X h d lastIP s =
         (case subdomains_loop X h d domainID currentIP (SubDomains d) (log_Println ''currentIP is:'' s3) of
            (Some p, s4) \<Rightarrow> (Inl p, s4)
          | (None, s4) \<Rightarrow>
              (Inr currentIP,
               emit (EvSleep (Interval (Configuration h)))
                 (log_Println ''Going to sleep, will start next checking in %d seconds...'' s4))))"
proof (intro conjI impI)
  assume a: "GetSubDomain X h domainID sub s = (Inr (subDomainID, ip @ replicate m (CHR 0x0A)), s1) \<and>
      subDomainID \<noteq> '''' \<and> ip @ replicate m (CHR 0x0A) \<noteq> ''''"
  then show "subdomain_step X h d domainID (ip @ replicate n (CHR 0x0A)) sub s =
      (None, log_Println ''%s.%s Current IP is same as domain IP, no need to update...'' s1)"
    by (auto simp add: subdomain_step_def TrimRight_newlines)
next
  assume "GetDomain X h (DomainName d) (log_Println ''Checking IP for domain %s'' s) = (Inr domainID, s2) \<and>
       domainID \<noteq> - 1 \<and> GetCurrentIP X (Configuration h) s2 = ((currentIP, err), s3) \<and>
       currentIP \<noteq> lastIP"
  then show "DomainLoop_cycle X h d lastIP s =
         (case subdomains_loop X h d domainID currentIP (SubDomains d) (log_Println ''currentIP is:'' s3) of
            (Some p, s4) \<Rightarrow> (Inl p, s4)
          | (None, s4) \<Rightarrow>
              (Inr currentIP,
               emit (EvSleep (Interval (Configuration h)))
                 (log_Println ''Going to sleep, will start next checking in %d seconds...'' s4)))"
    using cycle_with_changed_IP [where domainID = domainID and err = err and sa = s2] by simp
qed

lemma demo_record_with_newline:
  "GetSubDomain
     (dnspod_world ''1.2.3.4'' ''7'' (''1.2.3.4'' @ replicate 1 (CHR 0x0A)) (Inr ''Record.Modify answer'') None)
     handler0 7 ''home'' s0 =
   (Inr (''16894439'', ''1.2.3.4'' @ replicate 1 (CHR 0x0A)),
    \<lparr>world = (), trace = [Log ''debug:'', record_list_post ''7'']\<rparr>)"
  by (simp add: run_defs)

lemma demo_GetDomain:
  "GetDomain (dnspod_world online ''7'' record_value modify mail) handler0 ''example.com''
     (log_Println ''Checking IP for domain %s'' s0) =
   (Inr 7, \<lparr>world = (), trace = [Log ''Checking IP for domain %s'', domain_list_post]\<rparr>)"
  by (simp add: run_defs)

lemma demo_GetCurrentIP:
  "GetCurrentIP (dnspod_world ''1.2.3.5'' domain_id record_value modify mail) (Configuration handler0)
     \<lparr>world = (), trace = [Log ''Checking IP for domain %s'', domain_list_post]\<rparr> =
   ((''1.2.3.5'', None),
    \<lparr>world = (),
     trace = [Log ''Checking IP for domain %s'', domain_list_post,
              EvGet ''http://members.3322.org/dyndns/getip'']\<rparr>)"
  by (simp add: run_defs)

theorem record_comparison_trims_newlines_cached_comparison_is_exact_witness:
  "subdomain_step
     (dnspod_world ''1.2.3.4'' ''7'' (''1.2.3.4'' @ replicate 1 (CHR 0x0A)) (Inr ''Record.Modify answer'') None)
     handler0 domain0 7 (''1.2.3.4'' @ replicate 0 (CHR 0x0A)) ''home'' s0 =
     (None,
      log_Println ''%s.%s Current IP is same as domain IP, no need to update...''
        \<lparr>world = (), trace = [Log ''debug:'', record_list_post ''7'']\<rparr>)
   \<and> DomainLoop_cycle (dnspod_world ''1.2.3.5'' ''7'' ''1.2.3.4'' (Inr ''Record.Modify answer'') None)
       handler0 domain0 ''1.2.3.4'' s0 =
       (case subdomains_loop (dnspod_world ''1.2.3.5'' ''7'' ''1.2.3.4'' (Inr ''Record.Modify answer'') None)
               handler0 domain0 7 ''1.2.3.5'' (SubDomains domain0)
               (log_Println ''currentIP is:''
                 \<lparr>world = (),
                  trace = [Log ''Checking IP for domain %s'', domain_list_post,
                           EvGet ''http://members.3322.org/dyndns/getip'']\<rparr>) of
          (Some p, s4) \<Rightarrow> (Inl p, s4)
        | (None, s4) \<Rightarrow>
            (Inr ''1.2.3.5'',
             emit (EvSleep (Interval (Configuration handler0)))
               (log_Println ''Going to sleep, will start next checking in %d seconds...'' s4)))"
proof (rule conjI)
  have ne: "''16894439'' \<noteq> ''''" "''1.2.3.4'' @ replicate 1 (CHR 0x0A) \<noteq> ''''" by simp_all
  show "subdomain_step
     (dnspod_world ''1.2.3.4'' ''7'' (''1.2.3.4'' @ replicate 1 (CHR 0x0A)) (Inr ''Record.Modify answer'') None)
     handler0 domain0 7 (''1.2.3.4'' @ replicate 0 (CHR 0x0A)) ''home'' s0 =
     (None,
      log_Println ''%s.%s Current IP is same as domain IP, no need to update...''
        \<lparr>world = (), trace = [Log ''debug:'', record_list_post ''7'']\<rparr>)"
    by (rule record_comparison_trims_newlines_cached_comparison_is_exact
          [THEN conjunct1, rule_format, OF conjI [OF demo_record_with_newline conjI [OF ne]]])
next
  have g: "GetDomain (dnspod_world ''1.2.3.5'' ''7'' ''1.2.3.4'' (Inr ''Record.Modify answer'') None)
             handler0 (DomainName domain0) (log_Println ''Checking IP for domain %s'' s0) =
           (Inr 7, \<lparr>world = (), trace = [Log ''Checking IP for domain %s'', domain_list_post]\<rparr>)"
    using demo_GetDomain by (simp add: domain0_def)
  have n: "(7::int) \<noteq> - 1" "''1.2.3.5'' \<noteq> ''1.2.3.4''" by simp_all
  show "DomainLoop_cycle (dnspod_world ''1.2.3.5'' ''7'' ''1.2.3.4'' (Inr ''Record.Modify answer'') None)
       handler0 domain0 ''1.2.3.4'' s0 =
       (case subdomains_loop (dnspod_world ''1.2.3.5'' ''7'' ''1.2.3.4'' (Inr ''Record.Modify answer'') None)
               handler0 domain0 7 ''1.2.3.5'' (SubDomains domain0)
               (log_Println ''currentIP is:''
                 \<lparr>world = (),
                  trace = [Log ''Checking IP for domain %s'', domain_list_post,
                           EvGet ''http://members.3322.org/dyndns/getip'']\<rparr>) of
          (Some p, s4) \<Rightarrow> (Inl p, s4)
        | (None, s4) \<Rightarrow>
            (Inr ''1.2.3.5'',
             emit (EvSleep (Interval (Configuration handler0)))
               (log_Println ''Going to sleep, will start next checking in %d seconds...'' s4)))"
    by (rule record_comparison_trims_newlines_cached_comparison_is_exact
          [THEN conjunct2, rule_format,
           OF conjI [OF g conjI [OF n(1) conjI [OF demo_GetCurrentIP n(2)]]]])
qed

lemma demo_cached_newline_cycle:
  "DomainLoop_cycle (dnspod_world ''1.2.3.4'' ''7'' ''1.2.3.4'' (Inr ''Record.Modify answer'') None)
     handler0 domain0 (''1.2.3.4'' @ newline) s0 =
   (Inr ''1.2.3.4'',
    \<lparr>world = (),
     trace =
       [Log ''Checking IP for domain %s'', domain_list_post,
        EvGet ''http://members.3322.org/dyndns/getip'',
        Log ''currentIP is:'', Log ''debug:'', record_list_post ''7'',
        Log ''%s.%s Current IP is same as domain IP, no need to update...'',
        Log ''Going to sleep, will start next checking in %d seconds...'',
        EvSleep 300]\<rparr>)"
  by (simp add: run_defs)

lemma demo_crlf_run:
  "fst (DomainLoop (Suc (Suc 0)) crlf_world handler0 domain0 \<lparr>world = 0, trace = []\<rparr>) =
     Inr (''1.2.3.4'' @ [CHR 0x0D])
   \<and> provider_calls (trace (snd (DomainLoop (Suc (Suc 0)) crlf_world handler0 domain0
                                    \<lparr>world = 0, trace = []\<rparr>))) =
       [domain_list_post, record_list_post ''7'',
        domain_list_post, record_list_post ''7'', record_modify_post ''7'' (''1.2.3.4'' @ [CHR 0x0D])]"
  by (simp add: DomainLoop_def crlf_world_def run_defs)

text \<open>
  Claim C4 as stated fails. For the comparison with the cached IP: the cached 1.2.3.4
  followed by a newline and the resolved 1.2.3.4 differ only by a trailing newline, and
  the cycle takes the IP for changed: it does not log that the IP is the same, it looks
  the record up at the provider, and it replaces the cached value. And neither
  comparison trims other trailing whitespace: when the echo service ends its second
  answer with carriage return and line feed, the second cycle of the loop takes the
  unchanged address for a new one, in both comparisons, and sends an update.
\<close>

theorem cached_comparison_does_not_trim:
  "TrimRight (''1.2.3.4'' @ newline) newline = TrimRight ''1.2.3.4'' newline
   \<and> fst (DomainLoop_cycle (dnspod_world ''1.2.3.4'' ''7'' ''1.2.3.4'' (Inr ''Record.Modify answer'') None)
            handler0 domain0 (''1.2.3.4'' @ newline) s0) = Inr ''1.2.3.4''
   \<and> Log ''IP is the same as cached one. Skip update.''
        \<notin> set (trace (snd (DomainLoop_cycle
             (dnspod_world ''1.2.3.4'' ''7'' ''1.2.3.4'' (Inr ''Record.Modify answer'') None)
             handler0 domain0 (''1.2.3.4'' @ newline) s0)))
   \<and> provider_calls (trace (snd (DomainLoop_cycle
          (dnspod_world ''1.2.3.4'' ''7'' ''1.2.3.4'' (Inr ''Record.Modify answer'') None)
          handler0 domain0 (''1.2.3.4'' @ newline) s0))) = [domain_list_post, record_list_post ''7'']
   \<and> fst (DomainLoop (Suc (Suc 0)) crlf_world handler0 domain0 \<lparr>world = 0, trace = []\<rparr>) =
       Inr (''1.2.3.4'' @ [CHR 0x0D])
   \<and> provider_calls (trace (snd (DomainLoop (Suc (Suc 0)) crlf_world handler0 domain0
                                    \<lparr>world = 0, trace = []\<rparr>))) =
       [domain_list_post, record_list_post ''7'',
        domain_list_post, record_list_post ''7'', record_modify_post ''7'' (''1.2.3.4'' @ [CHR 0x0D])]"
  using demo_cached_newline_cycle demo_crlf_run by (simp add: TrimRight_def newline_def)

section \<open>Notification\<close>

text \<open>
  Claim C7, as amended. For a subdomain whose record lookup does not panic, the notifier
  is invoked, when notification is enabled, exactly when an update of the record is
  attempted (the record is found and its value differs from the current IP, trailing
  newlines apart), whatever the outcome of the update request. The step never ends the
  loop, and a failure of the notifier adds one log line to the state the notifier left
  and changes nothing else.
\<close>

theorem notification_follows_update_attempt:
  assumes "GetSubDomain X h domainID sub s = (Inr (subDomainID, ip), s1)"
  shows "fst (subdomain_step X h d domainID currentIP sub s) = None
     \<and> mails (trace (snd (subdomain_step X h d domainID currentIP sub s))) =
         mails (trace s) @
         (if Enabled (Notify (Configuration h)) \<and> subDomainID \<noteq> '''' \<and> ip \<noteq> '''' \<and>
             TrimRight currentIP newline \<noteq> TrimRight ip newline
          then [EvDialAndSend
                 \<lparr>From = SMTPUsername (Notify (Configuration h)), To = SendTo (Notify (Configuration h)),
                  Subject = ''GoDNS Notification'',
                  Body = buildTemplate X currentIP (sub @ ''.'' @ DomainName d)\<rparr>]
          else [])
     \<and> (Enabled (Notify (Configuration h)) \<and> subDomainID \<noteq> '''' \<and> ip \<noteq> '''' \<and>
          TrimRight currentIP newline \<noteq> TrimRight ip newline \<and>
          SendNotify X (Configuration h) (sub @ ''.'' @ DomainName d) currentIP
            (log_Println ''Sending notification to:''
              (snd (UpdateIP X h domainID subDomainID sub currentIP
                (log_Println ''%s.%s Start to update record IP...'' s1)))) = (r, s5) \<longrightarrow>
          snd (subdomain_step X h d domainID currentIP sub s) =
            (case r of Some e \<Rightarrow> log_Println ''Failed to send notification'' s5 | None \<Rightarrow> s5))"
proof -
  from GetSubDomain_trace [OF assms] have m1: "mails (trace s1) = mails (trace s)" .
  obtain u s3 where u: "UpdateIP X h domainID subDomainID sub currentIP
      (log_Println ''%s.%s Start to update record IP...'' s1) = (u, s3)"
    by (metis surj_pair)
  from UpdateIP_trace [OF u] m1 have m3: "mails (trace s3) = mails (trace s)" by simp
  have n: "subDomainID \<noteq> '''' \<Longrightarrow> u = None"
    using GetSubDomain_built [OF assms] UpdateIP_returns [of X h domainID subDomainID sub currentIP
      "log_Println ''%s.%s Start to update record IP...'' s1"] u by simp
  show ?thesis
    using assms m1 m3 u n
    by (auto simp: subdomain_step_def Let_def split: prod.splits option.splits
        dest!: SendNotify_trace)
qed

lemma demo_record:
  "GetSubDomain (dnspod_world online domain_id ''1.2.3.4'' modify mail) handler0 7 ''home'' s0 =
   (Inr (''16894439'', ''1.2.3.4''), \<lparr>world = (), trace = [Log ''debug:'', record_list_post ''7'']\<rparr>)"
  by (simp add: run_defs)

lemma demo_failed_notification:
  "SendNotify (dnspod_world ''1.2.3.5'' ''7'' ''1.2.3.4'' (Inl (Error ''timeout'')) (Some (Error ''smtp down'')))
     (Configuration handler0) (''home'' @ ''.'' @ DomainName domain0) ''1.2.3.5''
     (log_Println ''Sending notification to:''
       (snd (UpdateIP (dnspod_world ''1.2.3.5'' ''7'' ''1.2.3.4'' (Inl (Error ''timeout'')) (Some (Error ''smtp down'')))
          handler0 7 ''16894439'' ''home'' ''1.2.3.5''
          (log_Println ''%s.%s Start to update record IP...''
            \<lparr>world = (), trace = [Log ''debug:'', record_list_post ''7'']\<rparr>)))) =
   (Some (Error ''smtp down''),
    \<lparr>world = (),
     trace =
       [Log ''debug:'', record_list_post ''7'',
        Log ''%s.%s Start to update record IP...'', record_modify_post ''7'' ''1.2.3.5'',
        Log ''Post failed...'', Log [], Log ''Failed to update record to new IP!'', Log [],
        Log ''Sending notification to:'', Log ''currentIP:'', Log ''domain:'',
        notification ''home.example.com'' ''1.2.3.5'',
        Log ''Send email notification with error:'']\<rparr>)"
  by (simp add: run_defs)

theorem notification_follows_update_attempt_witness:
  "fst (subdomain_step
          (dnspod_world ''1.2.3.5'' ''7'' ''1.2.3.4'' (Inl (Error ''timeout'')) (Some (Error ''smtp down'')))
          handler0 domain0 7 ''1.2.3.5'' ''home'' s0) = None
   \<and> mails (trace (snd (subdomain_step
          (dnspod_world ''1.2.3.5'' ''7'' ''1.2.3.4'' (Inl (Error ''timeout'')) (Some (Error ''smtp down'')))
          handler0 domain0 7 ''1.2.3.5'' ''home'' s0))) = [notification ''home.example.com'' ''1.2.3.5'']
   \<and> snd (subdomain_step
          (dnspod_world ''1.2.3.5'' ''7'' ''1.2.3.4'' (Inl (Error ''timeout'')) (Some (Error ''smtp down'')))
          handler0 domain0 7 ''1.2.3.5'' ''home'' s0) =
       log_Println ''Failed to send notification''
         \<lparr>world = (),
          trace =
            [Log ''debug:'', record_list_post ''7'',
             Log ''%s.%s Start to update record IP...'', record_modify_post ''7'' ''1.2.3.5'',
             Log ''Post failed...'', Log [], Log ''Failed to update record to new IP!'', Log [],
             Log ''Sending notification to:'', Log ''currentIP:'', Log ''domain:'',
             notification ''home.example.com'' ''1.2.3.5'',
             Log ''Send email notification with error:'']\<rparr>"
proof -
  let ?X = "dnspod_world ''1.2.3.5'' ''7'' ''1.2.3.4'' (Inl (Error ''timeout'')) (Some (Error ''smtp down''))"
  note g = demo_record [where online = "''1.2.3.5''" and domain_id = "''7''"
             and modify = "Inl (Error ''timeout'')" and mail = "Some (Error ''smtp down'')"]
  note t = notification_follows_update_attempt [OF g, where d = domain0 and currentIP = "''1.2.3.5''"]
  have c: "Enabled (Notify (Configuration handler0))" "''16894439'' \<noteq> ''''" "''1.2.3.4'' \<noteq> ''''"
    "TrimRight ''1.2.3.5'' newline \<noteq> TrimRight ''1.2.3.4'' newline"
    by (simp_all add: handler0_def settings0_def TrimRight_def newline_def)
  have m: "[EvDialAndSend
             \<lparr>From = SMTPUsername (Notify (Configuration handler0)),
              To = SendTo (Notify (Configuration handler0)), Subject = ''GoDNS Notification'',
              Body = buildTemplate ?X ''1.2.3.5'' (''home'' @ ''.'' @ DomainName domain0)\<rparr>] =
           [notification ''home.example.com'' ''1.2.3.5'']"
    by (simp add: run_defs)
  note t1 = t [THEN conjunct1]
  note t2 = t [THEN conjunct2, THEN conjunct1]
  note t3 = t [THEN conjunct2, THEN conjunct2, rule_format,
               OF conjI [OF c(1) conjI [OF c(2) conjI [OF c(3) conjI [OF c(4) demo_failed_notification]]]]]
  from t1 t2 t3 c m show ?thesis
    by (simp add: s0_def)
qed

text \<open>
  Claim C7 as stated fails: the update request of this cycle fails, and the
  notification is sent all the same.
\<close>

theorem notification_sent_although_update_failed:
  "Log ''Failed to update record to new IP!''
     \<in> set (trace (snd (DomainLoop_cycle
          (dnspod_world ''1.2.3.5'' ''7'' ''1.2.3.4'' (Inl (Error ''timeout'')) None)
          handler0 domain0 ''1.2.3.4'' s0)))
   \<and> Log ''New IP updated!''
       \<notin> set (trace (snd (DomainLoop_cycle
            (dnspod_world ''1.2.3.5'' ''7'' ''1.2.3.4'' (Inl (Error ''timeout'')) None)
            handler0 domain0 ''1.2.3.4'' s0)))
   \<and> mails (trace (snd (DomainLoop_cycle
          (dnspod_world ''1.2.3.5'' ''7'' ''1.2.3.4'' (Inl (Error ''timeout'')) None)
          handler0 domain0 ''1.2.3.4'' s0))) = [notification ''home.example.com'' ''1.2.3.5'']"
  by (simp add: demo_failed_update_cycle)

section \<open>The results -1 and 0 of GetDomain\<close>

lemma GetDomain_loop_absent: "name_absent name domains \<Longrightarrow> GetDomain_loop domains name = Inr 0"
  by (induction domains) (auto simp: name_absent_def split: json.splits)

lemma GetDomain_loop_minus_one:
  "GetDomain_loop domains name = Inr (- 1) \<Longrightarrow>
     \<exists>m t. JObject m \<in> set domains \<and> map_of m ''name'' = Some (JString name) \<and>
           map_of m ''id'' = Some (JNumber t) \<and> Int64 t = - 1"
  by (induction domains) (auto split: json.splits if_splits option.splits)

text \<open>
  When the client is there and \<^verbatim>\<open>http.NewRequest\<close> refuses the API address, \<open>GetDomain\<close>
  returns nothing: it panics in its request helper before any request is sent. With a
  line feed at the end of the API address, the first cycle of the loop ends in the
  deferred function.
\<close>

lemma GetDomain_panics_when_request_refused:
  "GetHttpClient X (Configuration h) s = (Some client, sa) \<Longrightarrow> http_NewRequest X (API h) = Some e \<Longrightarrow>
     GetDomain X h name s =
       (Inl (Panic ''runtime error: invalid memory address or nil pointer dereference''), sa)"
  by (simp add: GetDomain_def PostData_panics)

lemma demo_refused_address:
  "GetDomain (dnspod_world ''1.2.3.5'' ''7'' ''1.2.3.4'' (Inr ''Record.Modify answer'') None) handler_lf
     ''example.com'' s0 =
     (Inl (Panic ''runtime error: invalid memory address or nil pointer dereference''), s0)
   \<and> DomainLoop (Suc 0) (dnspod_world ''1.2.3.5'' ''7'' ''1.2.3.4'' (Inr ''Record.Modify answer'') None)
       handler_lf domain0 s0 =
     (Inl (Panic ''runtime error: invalid memory address or nil pointer dereference''),
      \<lparr>world = (),
       trace = [Log ''Checking IP for domain %s'', Log ''Recovered in %v: %v'', EvPanicChan ''example.com'']\<rparr>)"
  by (simp add: DomainLoop_def handler_lf_def run_defs)

text \<open>
  Claim C9, as amended. \<open>GetDomain\<close> asks for the domain list with \<open>length=20\<close>. In a call
  in which its request helper \<open>PostData\<close> returns, \<open>GetDomain\<close> returns -1 when the HTTP
  request or the JSON decoding fails; when both succeed it returns -1 only if the list
  holds an entry of the requested name whose numeric id is -1. When both succeed and the
  requested name is absent from the list, it returns 0; the loop does not take 0 for a
  failure: the cycle resolves the IP and, when it differs from the cached one, processes
  the subdomains with domain id 0.
\<close>

theorem GetDomain_minus_one_and_zero:
  assumes "PostData X h ''/Domain.List'' [(''type'', ''all''), (''offset'', ''0''), (''length'', ''20'')] s =
             (Inr (response, err), s1)"
  shows "(err \<noteq> None \<or> simplejson_NewJson X response = None \<longrightarrow> fst (GetDomain X h name s) = Inr (- 1))
     \<and> (fst (GetDomain X h name s) = Inr (- 1) \<longrightarrow>
          err \<noteq> None \<or> simplejson_NewJson X response = None \<or>
          (\<exists>sjson m t. simplejson_NewJson X response = Some sjson \<and>
             JObject m \<in> set (Array (Get sjson ''domains'')) \<and>
             map_of m ''name'' = Some (JString name) \<and> map_of m ''id'' = Some (JNumber t) \<and> Int64 t = - 1))
     \<and> (\<forall>sjson. err = None \<and> simplejson_NewJson X response = Some sjson \<and>
           name_absent name (Array (Get sjson ''domains'')) \<longrightarrow>
           fst (GetDomain X h name s) = Inr 0)
     \<and> (GetDomain X h (DomainName d) (log_Println ''Checking IP for domain %s'' s') = (Inr 0, s2) \<and>
         GetCurrentIP X (Configuration h) s2 = ((currentIP, e), s3) \<and> currentIP \<noteq> lastIP \<longrightarrow>
         DomainLoop_cycle X h d lastIP s' =
           (case subdomains_loop X h d 0 currentIP (SubDomains d) (log_Println ''currentIP is:'' s3) of
              (Some p, s4) \<Rightarrow> (Inl p, s4)
            | (None, s4) \<Rightarrow>
                (Inr currentIP,
                 emit (EvSleep (Interval (Configuration h)))
                   (log_Println ''Going to sleep, will start next checking in %d seconds...'' s4))))"
proof (intro conjI impI allI)
  assume "err \<noteq> None \<or> simplejson_NewJson X response = None"
  with assms show "fst (GetDomain X h name s) = Inr (- 1)"
    by (auto simp: GetDomain_def Let_def split: option.splits)
next
  assume m: "fst (GetDomain X h name s) = Inr (- 1)"
  show "err \<noteq> None \<or> simplejson_NewJson X response = None \<or>
          (\<exists>sjson m t. simplejson_NewJson X response = Some sjson \<and>
             JObject m \<in> set (Array (Get sjson ''domains'')) \<and>
             map_of m ''name'' = Some (JString name) \<and> map_of m ''id'' = Some (JNumber t) \<and> Int64 t = - 1)"
  proof (cases "err \<noteq> None \<or> simplejson_NewJson X response = None")
    case True
    then show ?thesis by blast
  next
    case False
    then obtain sjson where p: "err = None" "simplejson_NewJson X response = Some sjson" by auto
    with assms m have "GetDomain_loop (Array (Get sjson ''domains'')) name = Inr (- 1)"
      by (auto simp: GetDomain_def Let_def split: sum.splits if_splits)
    from GetDomain_loop_minus_one [OF this] p show ?thesis by blast
  qed
next
  fix sjson
  assume "err = None \<and> simplejson_NewJson X response = Some sjson \<and>
           name_absent name (Array (Get sjson ''domains''))"
  with assms show "fst (GetDomain X h name s) = Inr 0"
    by (auto simp: GetDomain_def Let_def GetDomain_loop_absent split: sum.splits)
next
  assume "GetDomain X h (DomainName d) (log_Println ''Checking IP for domain %s'' s') = (Inr 0, s2) \<and>
         GetCurrentIP X (Configuration h) s2 = ((currentIP, e), s3) \<and> currentIP \<noteq> lastIP"
  then show "DomainLoop_cycle X h d lastIP s' =
           (case subdomains_loop X h d 0 currentIP (SubDomains d) (log_Println ''currentIP is:'' s3) of
              (Some p, s4) \<Rightarrow> (Inl p, s4)
            | (None, s4) \<Rightarrow>
                (Inr currentIP,
                 emit (EvSleep (Interval (Configuration h)))
                   (log_Println ''Going to sleep, will start next checking in %d seconds...'' s4)))"
    using cycle_with_changed_IP [where domainID = 0 and err = e and sa = s2] by simp
qed

lemma demo_refused_PostData:
  "PostData (fixed_world (Inr demo_addrs) (Inr ''1.2.3.5'') no_post no_json None) handler0 ''/Domain.List''
     [(''type'', ''all''), (''offset'', ''0''), (''length'', ''20'')] s0 =
   (Inr ('''', Some (Error ''connection refused'')),
    \<lparr>world = (), trace = [domain_list_post, Log ''Post failed...'', Log []]\<rparr>)"
  by (simp add: run_defs no_post_def)

lemma demo_PostData:
  "PostData (dnspod_world online domain_id record_value modify mail) handler0 ''/Domain.List''
     [(''type'', ''all''), (''offset'', ''0''), (''length'', ''20'')] s0 =
   (Inr (''Domain.List answer'', None), \<lparr>world = (), trace = [domain_list_post]\<rparr>)"
  by (simp add: run_defs)

lemma demo_NewJson:
  "simplejson_NewJson (dnspod_world online domain_id record_value modify mail) ''Domain.List answer'' =
     Some (domains_json domain_id)"
  by (simp add: dnspod_world_def fixed_world_def dnspod_json_def)

lemma demo_zero_GetDomain:
  "GetDomain (dnspod_world ''1.2.3.5'' ''7'' ''1.2.3.4'' (Inr ''Record.Modify answer'') None) handler0
     (DomainName (domain0\<lparr>DomainName := ''missing.org''\<rparr>))
     (log_Println ''Checking IP for domain %s'' s0) =
   (Inr 0, \<lparr>world = (), trace = [Log ''Checking IP for domain %s'', domain_list_post]\<rparr>)"
  by (simp add: run_defs)

theorem GetDomain_minus_one_and_zero_witness:
  "fst (GetDomain (fixed_world (Inr demo_addrs) (Inr ''1.2.3.5'') no_post no_json None) handler0
          ''example.com'' s0) = Inr (- 1)
   \<and> fst (GetDomain (dnspod_world ''1.2.3.5'' ''7'' ''1.2.3.4'' (Inr ''Record.Modify answer'') None) handler0
            ''missing.org'' s0) = Inr 0
   \<and> DomainLoop_cycle (dnspod_world ''1.2.3.5'' ''7'' ''1.2.3.4'' (Inr ''Record.Modify answer'') None) handler0
       (domain0\<lparr>DomainName := ''missing.org''\<rparr>) ''1.2.3.4'' s0 =
       (case subdomains_loop (dnspod_world ''1.2.3.5'' ''7'' ''1.2.3.4'' (Inr ''Record.Modify answer'') None)
               handler0 (domain0\<lparr>DomainName := ''missing.org''\<rparr>) 0 ''1.2.3.5''
               (SubDomains (domain0\<lparr>DomainName := ''missing.org''\<rparr>))
               (log_Println ''currentIP is:''
                 \<lparr>world = (),
                  trace = [Log ''Checking IP for domain %s'', domain_list_post,
                           EvGet ''http://members.3322.org/dyndns/getip'']\<rparr>) of
          (Some p, s4) \<Rightarrow> (Inl p, s4)
        | (None, s4) \<Rightarrow>
            (Inr ''1.2.3.5'',
             emit (EvSleep (Interval (Configuration handler0)))
               (log_Println ''Going to sleep, will start next checking in %d seconds...'' s4)))"
proof (intro conjI)
  have e: "Some (Error ''connection refused'') \<noteq> None \<or>
           simplejson_NewJson (fixed_world (Inr demo_addrs) (Inr ''1.2.3.5'') no_post no_json None) '''' = None"
    by simp
  show "fst (GetDomain (fixed_world (Inr demo_addrs) (Inr ''1.2.3.5'') no_post no_json None) handler0
          ''example.com'' s0) = Inr (- 1)"
    by (rule GetDomain_minus_one_and_zero [OF demo_refused_PostData, THEN conjunct1, rule_format, OF e])
next
  let ?X = "dnspod_world ''1.2.3.5'' ''7'' ''1.2.3.4'' (Inr ''Record.Modify answer'') None"
  have a: "(None :: error option) = None \<and>
           simplejson_NewJson ?X ''Domain.List answer'' = Some (domains_json ''7'') \<and>
           name_absent ''missing.org'' (Array (Get (domains_json ''7'') ''domains''))"
    by (simp add: demo_NewJson name_absent_def domains_json_def Array_def Get_def status_ok_def)
  show "fst (GetDomain ?X handler0 ''missing.org'' s0) = Inr 0"
    by (rule GetDomain_minus_one_and_zero
          [OF demo_PostData, THEN conjunct2, THEN conjunct2, THEN conjunct1, rule_format, OF a])
next
  let ?X = "dnspod_world ''1.2.3.5'' ''7'' ''1.2.3.4'' (Inr ''Record.Modify answer'') None"
  have n: "''1.2.3.5'' \<noteq> ''1.2.3.4''" by simp
  show "DomainLoop_cycle ?X handler0 (domain0\<lparr>DomainName := ''missing.org''\<rparr>) ''1.2.3.4'' s0 =
       (case subdomains_loop ?X handler0 (domain0\<lparr>DomainName := ''missing.org''\<rparr>) 0 ''1.2.3.5''
               (SubDomains (domain0\<lparr>DomainName := ''missing.org''\<rparr>))
               (log_Println ''currentIP is:''
                 \<lparr>world = (),
                  trace = [Log ''Checking IP for domain %s'', domain_list_post,
                           EvGet ''http://members.3322.org/dyndns/getip'']\<rparr>) of
          (Some p, s4) \<Rightarrow> (Inl p, s4)
        | (None, s4) \<Rightarrow>
            (Inr ''1.2.3.5'',
             emit (EvSleep (Interval (Configuration handler0)))
               (log_Println ''Going to sleep, will start next checking in %d seconds...'' s4)))"
    by (rule GetDomain_minus_one_and_zero
          [OF demo_PostData, THEN conjunct2, THEN conjunct2, THEN conjunct2, rule_format,
           OF conjI [OF demo_zero_GetDomain conjI [OF demo_GetCurrentIP n]]])
qed

text \<open>
  Claim C9 as stated fails in its first part: here the HTTP request succeeds and the
  answer is decoded, the domain is in the list, and \<open>GetDomain\<close> returns -1, because -1
  is the id the list gives for the domain.
\<close>

theorem GetDomain_minus_one_without_failure:
  "fst (GetDomain (dnspod_world ''1.2.3.5'' ''-1'' ''1.2.3.4'' (Inr ''Record.Modify answer'') None) handler0
          ''example.com'' s0) = Inr (- 1)
   \<and> fst (PostData (dnspod_world ''1.2.3.5'' ''-1'' ''1.2.3.4'' (Inr ''Record.Modify answer'') None) handler0
            ''/Domain.List'' [(''type'', ''all''), (''offset'', ''0''), (''length'', ''20'')] s0) =
       Inr (''Domain.List answer'', None)
   \<and> simplejson_NewJson (dnspod_world ''1.2.3.5'' ''-1'' ''1.2.3.4'' (Inr ''Record.Modify answer'') None)
       ''Domain.List answer'' = Some (domains_json ''-1'')"
  by (simp add: demo_PostData demo_NewJson) (simp add: run_defs)

section \<open>Bounded restart by the supervisor\<close>

lemma on_FailureSignal_simps [simp]:
  "counter (on_FailureSignal d st) x = (if x = d then counter st d + 1 else counter st x)"
  "actions (on_FailureSignal d st) =
     actions st @ [if counter st d + 1 < PanicMax then Relaunch d else Abandon d]"
  by (simp_all add: on_FailureSignal_def Let_def)

lemma Supervisor_run_counter:
  "counter (Supervisor_run st signals) d = counter st d + count_list signals d"
  by (induction signals arbitrary: st) simp_all

lemma Supervisor_run_relaunches:
  "relaunches d (Supervisor_run st signals) =
     relaunches d st +
       (min (counter st d + count_list signals d) (PanicMax - 1) - min (counter st d) (PanicMax - 1))"
proof (induction signals arbitrary: st)
  case Nil
  show ?case by simp
next
  case (Cons x signals)
  show ?case
    unfolding Supervisor_run.simps Cons.IH
    by (auto simp: relaunches_def PanicMax_def min_def)
qed

lemma Supervisor_run_abandon:
  "count_list (actions (Supervisor_run st signals)) (Abandon d) =
     count_list (actions st) (Abandon d) +
       ((counter st d + count_list signals d) - max (counter st d) (PanicMax - 1))"
proof (induction signals arbitrary: st)
  case Nil
  show ?case by simp
next
  case (Cons x signals)
  show ?case
    unfolding Supervisor_run.simps Cons.IH
    by (auto simp: PanicMax_def max_def)
qed

lemma Supervisor_run_append:
  "Supervisor_run st (xs @ ys) = Supervisor_run (Supervisor_run st xs) ys"
  by (induction xs arbitrary: st) simp_all

lemma Supervisor_run_sibling:
  "counter st' d' = counter st d' \<Longrightarrow> filter (about d') (actions st') = filter (about d') (actions st) \<Longrightarrow>
   d' \<noteq> d \<Longrightarrow>
   filter (about d') (actions (Supervisor_run st' signals)) =
     filter (about d') (actions (Supervisor_run st (removeAll d signals))) \<and>
   counter (Supervisor_run st' signals) d' = counter (Supervisor_run st (removeAll d signals)) d'"
proof (induction signals arbitrary: st st')
  case Nil
  then show ?case by simp
next
  case (Cons x signals)
  show ?case
  proof (cases "x = d")
    case True
    have "filter (about d') (actions (Supervisor_run (on_FailureSignal d st') signals)) =
     filter (about d') (actions (Supervisor_run st (removeAll d signals))) \<and>
   counter (Supervisor_run (on_FailureSignal d st') signals) d' = counter (Supervisor_run st (removeAll d signals)) d'"
      using Cons.prems by (intro Cons.IH) auto
    with True show ?thesis by simp
  next
    case False
    have "filter (about d') (actions (Supervisor_run (on_FailureSignal x st') signals)) =
     filter (about d') (actions (Supervisor_run (on_FailureSignal x st) (removeAll d signals))) \<and>
   counter (Supervisor_run (on_FailureSignal x st') signals) d' = counter (Supervisor_run (on_FailureSignal x st) (removeAll d signals)) d'"
      using Cons.prems by (intro Cons.IH) auto
    with False show ?thesis by simp
  qed
qed

text \<open>
  In the sources, a loop that panics logs the panic, sends its domain on the panic
  channel and ends: this is the failure signal the supervisor receives.
\<close>

lemma DomainLoop_panic_ends_with_signal:
  "DomainLoop_cycles n X h d lastIP s = (Inl p, s') \<Longrightarrow>
     \<exists>evs. trace s' = evs @ [Log ''Recovered in %v: %v'', EvPanicChan (DomainName d)]"
  by (induction n arbitrary: lastIP s) (auto split: prod.splits sum.splits)

text \<open>
  Claim C8. Whatever failure signals arrive and in whatever order, the supervisor
  relaunches the loop of a domain once for each of its first \<open>PanicMax - 1\<close> signals and
  never again: at most 5 times. It abandons the domain when the signal number \<open>PanicMax\<close>
  of that domain arrives, and no later signal brings a relaunch. What the supervisor does
  about another domain is the same as if the failing domain had never sent a signal. A
  loop that panics in every cycle sends one signal after each launch, so its domain is
  launched at the start, relaunched \<open>PanicMax - 1\<close> times and then abandoned.
\<close>

theorem Supervisor_bounded_restart:
  "relaunches d (Supervisor_run (Supervisor_start configs) signals) =
     min (count_list signals d) (PanicMax - 1)
   \<and> relaunches d (Supervisor_run (Supervisor_start configs) signals) \<le> 5
   \<and> (Abandon d \<in> set (actions (Supervisor_run (Supervisor_start configs) signals)) \<longleftrightarrow>
        PanicMax \<le> count_list signals d)
   \<and> (PanicMax \<le> count_list signals d \<longrightarrow>
        relaunches d (Supervisor_run (Supervisor_start configs) (signals @ later)) =
        relaunches d (Supervisor_run (Supervisor_start configs) signals))
   \<and> (d' \<noteq> d \<longrightarrow>
        filter (about d') (actions (Supervisor_run (Supervisor_start configs) signals)) =
        filter (about d') (actions (Supervisor_run (Supervisor_start configs) (removeAll d signals))))"
proof -
  let ?st = "Supervisor_start configs"
  have c0: "counter ?st d = 0" and r0: "relaunches d ?st = 0"
    and a0: "count_list (actions ?st) (Abandon d) = 0"
    by (auto simp: Supervisor_start_def relaunches_def count_list_0_iff)
  have r: "relaunches d (Supervisor_run ?st xs) = min (count_list xs d) (PanicMax - 1)" for xs
    by (simp add: Supervisor_run_relaunches c0 r0)
  have a: "count_list (actions (Supervisor_run ?st signals)) (Abandon d) =
             count_list signals d - (PanicMax - 1)"
    by (simp add: Supervisor_run_abandon c0 a0)
  have "Abandon d \<in> set (actions (Supervisor_run ?st signals)) \<longleftrightarrow>
          count_list (actions (Supervisor_run ?st signals)) (Abandon d) \<noteq> 0"
    by (simp add: count_list_0_iff)
  also have "\<dots> \<longleftrightarrow> PanicMax \<le> count_list signals d"
    unfolding a by (auto simp: PanicMax_def)
  finally have ab: "Abandon d \<in> set (actions (Supervisor_run ?st signals)) \<longleftrightarrow>
          PanicMax \<le> count_list signals d" .
  have sib: "d' \<noteq> d \<Longrightarrow>
        filter (about d') (actions (Supervisor_run ?st signals)) =
        filter (about d') (actions (Supervisor_run ?st (removeAll d signals)))"
    using Supervisor_run_sibling [of ?st d' ?st d signals] by simp
  show ?thesis
    using ab sib by (auto simp: r PanicMax_def)
qed

theorem Supervisor_bounded_restart_witness:
  "relaunches ''example.com''
     (Supervisor_run (Supervisor_start [domain0, \<lparr>DomainName = ''sibling.org'', SubDomains = [''www'']\<rparr>])
        [''example.com'', ''example.com'', ''example.com'', ''example.com'', ''example.com'']) = 4
   \<and> relaunches ''example.com''
       (Supervisor_run (Supervisor_start [domain0, \<lparr>DomainName = ''sibling.org'', SubDomains = [''www'']\<rparr>])
          ([''example.com'', ''example.com'', ''example.com'', ''example.com'', ''example.com''] @
           [''example.com''])) = 4
   \<and> actions
       (Supervisor_run (Supervisor_start [domain0, \<lparr>DomainName = ''sibling.org'', SubDomains = [''www'']\<rparr>])
          [''example.com'', ''example.com'', ''example.com'', ''example.com'', ''example.com'']) =
       [Start ''example.com'', Start ''sibling.org'', Relaunch ''example.com'', Relaunch ''example.com'',
        Relaunch ''example.com'', Relaunch ''example.com'', Abandon ''example.com'']
   \<and> filter (about ''sibling.org'')
       (actions
         (Supervisor_run (Supervisor_start [domain0, \<lparr>DomainName = ''sibling.org'', SubDomains = [''www'']\<rparr>])
            [''example.com'', ''example.com'', ''example.com'', ''example.com'', ''example.com''])) =
       [Start ''sibling.org'']"
proof -
  let ?configs = "[domain0, \<lparr>DomainName = ''sibling.org'', SubDomains = [''www'']\<rparr>]"
  let ?signals = "[''example.com'', ''example.com'', ''example.com'', ''example.com'', ''example.com'']"
  note t = Supervisor_bounded_restart
             [where d = "''example.com''" and d' = "''sibling.org''" and configs = ?configs
                and signals = ?signals and later = "[''example.com'']"]
  have h: "PanicMax \<le> count_list ?signals ''example.com''" "''sibling.org'' \<noteq> ''example.com''"
    by (simp_all add: PanicMax_def)
  have e: "actions (Supervisor_run (Supervisor_start ?configs) ?signals) =
       [Start ''example.com'', Start ''sibling.org'', Relaunch ''example.com'', Relaunch ''example.com'',
        Relaunch ''example.com'', Relaunch ''example.com'', Abandon ''example.com'']"
    by (simp add: Supervisor_start_def on_FailureSignal_def PanicMax_def domain0_def)
  have n: "Supervisor_run (Supervisor_start ?configs) (removeAll ''example.com'' ?signals) =
             Supervisor_start ?configs"
    by simp
  from t h e show ?thesis
    by (simp add: n) (simp add: PanicMax_def Supervisor_start_def domain0_def)
qed

end
